theory Spec2Isabelle
  imports Complex_Main "HOL-Library.Word"
begin

section \<open>JavaScript values\<close>

text \<open>
  A JavaScript string is a sequence of UTF-16 code units, and \<open>s.length\<close> counts code
  units.  String literals of the source are written \<open>lit ''...''\<close>.
\<close>

type_synonym jsstring = "16 word list"

definition lit :: "string \<Rightarrow> jsstring" where
  "lit s = map (\<lambda>c. of_nat (of_char c)) s"

text \<open>
  A JavaScript number is an IEEE double: NaN, one of the two infinities, or a finite
  value.  A finite double is carried as the rational that JavaScript writes for it, the
  shortest decimal that reads back as the same double: \<open>1500.7\<close> is \<open>15007/10\<close>.
  No integer lies between a double and this decimal, and the decimals are ordered as the
  doubles are, so \<open>Math.trunc\<close> and the comparisons below, computed on the decimal,
  are those of the double.  Negative zero is not told apart from zero, as which it
  compares and prints.
\<close>

datatype jsnumber = NaN | PosInfinity | NegInfinity | Finite rat

datatype jsval =
    Undefined
  | Null
  | Bool bool
  | Num jsnumber
  | Str jsstring
  | Arr "jsval list"
  | Obj "(jsstring \<times> jsval) list"

fun Number_isNaN :: "jsnumber \<Rightarrow> bool" where
  "Number_isNaN NaN = True"
| "Number_isNaN _ = False"

fun Number_isFinite :: "jsval \<Rightarrow> bool" where
  "Number_isFinite (Num (Finite q)) = True"
| "Number_isFinite _ = False"

text \<open>\<open>Math.trunc\<close>: the integer part, rounding toward zero; NaN and the infinities are fixed.\<close>

definition trunc_rat :: "rat \<Rightarrow> int" where
  "trunc_rat q = (if q < 0 then \<lceil>q\<rceil> else \<lfloor>q\<rfloor>)"

fun Math_trunc :: "jsnumber \<Rightarrow> jsnumber" where
  "Math_trunc (Finite q) = Finite (of_int (trunc_rat q))"
| "Math_trunc n = n"

text \<open>The relational operators on two numbers: every comparison with NaN is false.\<close>

fun js_lt :: "jsnumber \<Rightarrow> jsnumber \<Rightarrow> bool" where
  "js_lt NaN _ = False"
| "js_lt _ NaN = False"
| "js_lt _ NegInfinity = False"
| "js_lt NegInfinity _ = True"
| "js_lt PosInfinity _ = False"
| "js_lt _ PosInfinity = True"
| "js_lt (Finite a) (Finite b) = (a < b)"

definition js_gt :: "jsnumber \<Rightarrow> jsnumber \<Rightarrow> bool" where
  "js_gt a b = js_lt b a"

section \<open>Timeout resolver (shared/timeout.ts)\<close>

definition DEFAULT_TIMEOUT_MS :: jsnumber where
  "DEFAULT_TIMEOUT_MS = Finite 30000"

definition MIN_TIMEOUT_MS :: jsnumber where
  "MIN_TIMEOUT_MS = Finite 1000"

definition MAX_TIMEOUT_MS :: jsnumber where
  "MAX_TIMEOUT_MS = Finite 300000"

text \<open>
  The second equation is the branch \<open>typeof timeoutMs !== 'number'\<close>: the argument is
  \<open>undefined\<close> or any other value that is not a number.
\<close>

fun resolveTimeout :: "jsval \<Rightarrow> jsnumber" where
  "resolveTimeout (Num timeoutMs) =
     (if Number_isNaN timeoutMs then DEFAULT_TIMEOUT_MS
      else (let clamped = Math_trunc timeoutMs in
            if js_lt clamped MIN_TIMEOUT_MS then MIN_TIMEOUT_MS
            else if js_gt clamped MAX_TIMEOUT_MS then MAX_TIMEOUT_MS
            else clamped))"
| "resolveTimeout _ = DEFAULT_TIMEOUT_MS"

text \<open>The clamp that the three returns of the numeric branch amount to on a finite input.\<close>

definition clamp_ms :: "int \<Rightarrow> int" where
  "clamp_ms k = (if k < 1000 then 1000 else if k > 300000 then 300000 else k)"


section \<open>Strings and serialization\<close>

text \<open>\<open>Array.prototype.join\<close> on an array of strings.\<close>

fun js_join :: "jsstring \<Rightarrow> jsstring list \<Rightarrow> jsstring" where
  "js_join sep [] = []"
| "js_join sep [x] = x"
| "js_join sep (x # y # ys) = x @ sep @ js_join sep (y # ys)"

text \<open>The decimal digits of a non-negative integer, as a template literal renders it.\<close>

definition digit_char :: "nat \<Rightarrow> 16 word" where
  "digit_char d = of_nat (48 + d)"

fun digits :: "nat \<Rightarrow> jsstring" where
  "digits n = (if n < 10 then [digit_char n] else digits (n div 10) @ [digit_char (n mod 10)])"

text \<open>
  \<open>Number::toString\<close>, after ECMAScript: with \<open>s\<close> the significant digits of the
  number, \<open>k\<close> their count and \<open>n\<close> the position of the decimal point, the digits
  are written plainly when \<open>-6 < n \<le> 21\<close> and in exponent notation otherwise.
  \<open>decimal_parts\<close> finds \<open>s\<close> and the power of ten that scales it: a decimal with a
  fraction is scaled up until it is an integer (a name of a double needs fewer than 400
  steps), an integer is stripped of its final zeros.
\<close>

fun decimal_scale :: "nat \<Rightarrow> int \<Rightarrow> nat \<Rightarrow> nat" where
  "decimal_scale 0 den j = j"
| "decimal_scale (Suc fuel) den j =
     (if 10 ^ j mod den = 0 then j else decimal_scale fuel den (Suc j))"

fun strip_zeros :: "nat \<Rightarrow> nat \<Rightarrow> nat \<times> nat" where
  "strip_zeros m z =
     (if m \<noteq> 0 \<and> m mod 10 = 0 then strip_zeros (m div 10) (Suc z) else (m, z))"

definition decimal_parts :: "rat \<Rightarrow> nat \<times> int" where
  "decimal_parts a =
     (case quotient_of a of
        (num, den) \<Rightarrow>
          (let j = decimal_scale 400 den 0;
               m = nat (num * 10 ^ j div den)
           in if j = 0 then (case strip_zeros m 0 of (s, z) \<Rightarrow> (s, int z))
              else (m, - int j)))"

definition positive_toString :: "rat \<Rightarrow> jsstring" where
  "positive_toString a =
     (case decimal_parts a of
        (s, e) \<Rightarrow>
          (let ds = digits s; k = int (length ds); n = k + e
           in if k \<le> n \<and> n \<le> 21 then ds @ replicate (nat (n - k)) 0x30
              else if 0 < n \<and> n \<le> 21 then take (nat n) ds @ lit ''.'' @ drop (nat n) ds
              else if - 6 < n \<and> n \<le> 0 then lit ''0.'' @ replicate (nat (- n)) 0x30 @ ds
              else (if k = 1 then ds else take 1 ds @ lit ''.'' @ drop 1 ds)
                   @ lit ''e'' @ (if n - 1 < 0 then lit ''-'' else lit ''+'')
                   @ digits (nat \<bar>n - 1\<bar>)))"

text \<open>
  The first branch is the rule for an integer below \<open>10^21\<close> in magnitude, which prints
  as its decimal digits.
\<close>

fun Number_toString :: "jsnumber \<Rightarrow> jsstring" where
  "Number_toString NaN = lit ''NaN''"
| "Number_toString PosInfinity = lit ''Infinity''"
| "Number_toString NegInfinity = lit ''-Infinity''"
| "Number_toString (Finite q) =
     (if of_int \<lfloor>q\<rfloor> = q \<and> \<bar>q\<bar> < 10 ^ 21
      then (if q < 0 then lit ''-'' @ digits (nat (- \<lfloor>q\<rfloor>)) else digits (nat \<lfloor>q\<rfloor>))
      else if q < 0 then lit ''-'' @ positive_toString (- q)
      else positive_toString q)"

text \<open>
  \<open>String(value)\<close>, which is also what a template literal applies to an interpolated
  value.  An array joins its elements with commas, \<open>null\<close> and \<open>undefined\<close> elements
  giving the empty string; a plain object gives \<open>[object Object]\<close>.
\<close>

fun js_String :: "jsval \<Rightarrow> jsstring" where
  "js_String Undefined = lit ''undefined''"
| "js_String Null = lit ''null''"
| "js_String (Bool b) = (if b then lit ''true'' else lit ''false'')"
| "js_String (Num n) = Number_toString n"
| "js_String (Str s) = s"
| "js_String (Arr xs) =
     js_join (lit '','') (map (\<lambda>x. if x = Undefined \<or> x = Null then [] else js_String x) xs)"
| "js_String (Obj ps) = lit ''[object Object]''"

text \<open>
  \<open>JSON.stringify\<close>, after ECMAScript's QuoteJSONString and SerializeJSONProperty.
  A string is quoted with the short escapes, \<open>\uXXXX\<close> for the other control characters
  and for a surrogate that is not part of a pair.
\<close>

definition hex_char :: "nat \<Rightarrow> 16 word" where
  "hex_char d = (if d < 10 then of_nat (48 + d) else of_nat (87 + d))"

definition unicode_escape :: "16 word \<Rightarrow> jsstring" where
  "unicode_escape c =
     [0x5C, 0x75, hex_char (unat c div 4096), hex_char (unat c div 256 mod 16),
      hex_char (unat c div 16 mod 16), hex_char (unat c mod 16)]"

definition quote_unit :: "16 word \<Rightarrow> jsstring" where
  "quote_unit c =
     (if c = 0x08 then [0x5C, 0x62]
      else if c = 0x09 then [0x5C, 0x74]
      else if c = 0x0A then [0x5C, 0x6E]
      else if c = 0x0C then [0x5C, 0x66]
      else if c = 0x0D then [0x5C, 0x72]
      else if c = 0x22 then [0x5C, 0x22]
      else if c = 0x5C then [0x5C, 0x5C]
      else if c < 0x20 then unicode_escape c
      else [c])"

definition is_lead :: "16 word \<Rightarrow> bool" where
  "is_lead c = (0xD800 \<le> c \<and> c \<le> 0xDBFF)"

definition is_trail :: "16 word \<Rightarrow> bool" where
  "is_trail c = (0xDC00 \<le> c \<and> c \<le> 0xDFFF)"

fun quote_units :: "jsstring \<Rightarrow> jsstring" where
  "quote_units [] = []"
| "quote_units [c] = (if is_lead c \<or> is_trail c then unicode_escape c else quote_unit c)"
| "quote_units (c # d # cs) =
     (if is_lead c \<and> is_trail d then c # d # quote_units cs
      else if is_lead c \<or> is_trail c then unicode_escape c @ quote_units (d # cs)
      else quote_unit c @ quote_units (d # cs))"

definition QuoteJSONString :: "jsstring \<Rightarrow> jsstring" where
  "QuoteJSONString s = [0x22] @ quote_units s @ [0x22]"

text \<open>
  The result is \<open>None\<close> where JavaScript gives \<open>undefined\<close>.  \<open>gap\<close> is the
  indentation unit (empty for the compact form), \<open>indent\<close> the current indentation.
  In an array an \<open>undefined\<close> element is written \<open>null\<close>; in an object a property whose
  value is \<open>undefined\<close> is left out; NaN and the infinities are written \<open>null\<close>.
\<close>

fun SerializeJSONProperty :: "jsstring \<Rightarrow> jsstring \<Rightarrow> jsval \<Rightarrow> jsstring option" where
  "SerializeJSONProperty gap indent Undefined = None"
| "SerializeJSONProperty gap indent Null = Some (lit ''null'')"
| "SerializeJSONProperty gap indent (Bool b) = Some (if b then lit ''true'' else lit ''false'')"
| "SerializeJSONProperty gap indent (Num n) =
     Some (case n of Finite q \<Rightarrow> Number_toString n | _ \<Rightarrow> lit ''null'')"
| "SerializeJSONProperty gap indent (Str s) = Some (QuoteJSONString s)"
| "SerializeJSONProperty gap indent (Arr xs) =
     (let stepback = indent; indent = indent @ gap;
          partial = map (\<lambda>x. case SerializeJSONProperty gap indent x of
                                None \<Rightarrow> lit ''null'' | Some s \<Rightarrow> s) xs
      in Some (if partial = [] then lit ''[]''
               else if gap = [] then lit ''['' @ js_join (lit '','') partial @ lit '']''
               else lit ''['' @ [0x0A] @ indent @ js_join (lit '','' @ [0x0A] @ indent) partial
                    @ [0x0A] @ stepback @ lit '']''))"
| "SerializeJSONProperty gap indent (Obj ps) =
     (let stepback = indent; indent = indent @ gap;
          partial = concat (map (\<lambda>p. case SerializeJSONProperty gap indent (snd p) of
                                None \<Rightarrow> []
                              | Some s \<Rightarrow> [QuoteJSONString (fst p) @ lit '':''
                                            @ (if gap = [] then [] else lit '' '') @ s]) ps)
      in Some (if partial = [] then lit ''{}''
               else if gap = [] then lit ''{'' @ js_join (lit '','') partial @ lit ''}''
               else lit ''{'' @ [0x0A] @ indent @ js_join (lit '','' @ [0x0A] @ indent) partial
                    @ [0x0A] @ stepback @ lit ''}''))"

text \<open>\<open>JSON.stringify(v)\<close> and \<open>JSON.stringify(v, null, 2)\<close>.\<close>

definition JSON_stringify :: "jsval \<Rightarrow> jsstring option" where
  "JSON_stringify v = SerializeJSONProperty [] [] v"

definition JSON_stringify_2 :: "jsval \<Rightarrow> jsstring option" where
  "JSON_stringify_2 v = SerializeJSONProperty (lit ''  '') [] v"

text \<open>
  The number of bytes of a string once encoded in UTF-8, as it is written to a file or
  sent on the wire: one byte below U+0080, two below U+0800, four for a surrogate pair,
  three for any other code unit.
\<close>

definition utf8_unit :: "16 word \<Rightarrow> nat" where
  "utf8_unit c = (if c < 0x80 then 1 else if c < 0x800 then 2 else 3)"

fun utf8_length :: "jsstring \<Rightarrow> nat" where
  "utf8_length [] = 0"
| "utf8_length [c] = utf8_unit c"
| "utf8_length (c # d # cs) =
     (if is_lead c \<and> is_trail d then 4 + utf8_length cs
      else utf8_unit c + utf8_length (d # cs))"

text \<open>
  A thrown value: an \<open>Error\<close> instance with its name and message, or any other value.
\<close>

datatype js_error = ErrorObject (error_name: jsstring) (error_message: jsstring) | NonError jsval

definition TypeError :: "jsstring \<Rightarrow> js_error" where
  "TypeError msg = ErrorObject (lit ''TypeError'') msg"

definition new_Error :: "jsstring \<Rightarrow> js_error" where
  "new_Error msg = ErrorObject (lit ''Error'') msg"

text \<open>
  An object is the list of its own enumerable properties in the order \<open>Object.keys\<close>
  lists them; reading a property that is absent gives \<open>undefined\<close>.
\<close>

type_synonym js_object = "(jsstring \<times> jsval) list"

definition Object_keys :: "js_object \<Rightarrow> jsstring list" where
  "Object_keys obj = map fst obj"

definition js_get :: "js_object \<Rightarrow> jsstring \<Rightarrow> jsval" where
  "js_get obj key = (case map_of obj key of None \<Rightarrow> Undefined | Some v \<Rightarrow> v)"

section \<open>Result spooler (shared/result-file.ts)\<close>

text \<open>
  The part of the world the spooler touches: the clock, the temporary directory and the
  entries of the results directory by file name.  When \<open>fs_fault\<close> is set, the directory
  cannot be created or written: \<open>mkdirSync\<close>, \<open>unlinkSync\<close> and \<open>writeFileSync\<close> throw it.
  \<open>md5_hex\<close> is the hex digest \<open>createHash('md5').update(s).digest('hex')\<close>.
\<close>

record result_file =
  mtimeMs :: int
  file_content :: jsstring

record world =
  now :: int
  tmpdir :: jsstring
  files :: "jsstring \<rightharpoonup> result_file"
  fs_fault :: "js_error option"
  md5_hex :: "jsstring \<Rightarrow> jsstring"

text \<open>\<open>path.join\<close> of a directory and a name that needs no normalization.\<close>

definition path_join :: "jsstring \<Rightarrow> jsstring \<Rightarrow> jsstring" where
  "path_join dir name = dir @ lit ''/'' @ name"

definition RESULTS_DIR :: "world \<Rightarrow> jsstring" where
  "RESULTS_DIR w = path_join (tmpdir w) (lit ''dev-mcp-results'')"

definition MAX_AGE_MS :: int where
  "MAX_AGE_MS = 60 * 60 * 1000"

definition writeResultFile :: "world \<Rightarrow> jsstring \<Rightarrow> jsval \<Rightarrow> js_error + (jsstring \<times> world)" where
  "writeResultFile w toolName data =
     (case fs_fault w of
        Some e \<Rightarrow> Inl e
      | None \<Rightarrow>
          (case (JSON_stringify data, JSON_stringify_2 data) of
             (Some serialized, Some indented) \<Rightarrow>
               (let ts = now w;
                    hash = take 8 (md5_hex w serialized);
                    filename = toolName @ lit ''-'' @ digits (nat ts) @ lit ''-'' @ hash
                               @ lit ''.json'';
                    filepath = path_join (RESULTS_DIR w) filename
                in Inr (filepath,
                        w\<lparr>files := (files w)(filename \<mapsto>
                             \<lparr>mtimeMs = ts, file_content = indented\<rparr>)\<rparr>))
           | _ \<Rightarrow> Inl (TypeError (lit ''The '' @ [0x22] @ lit ''data'' @ [0x22]
                              @ lit '' argument must be of type string''))))"

text \<open>Every failure inside the sweep is swallowed, so it returns the world and never throws.\<close>

definition cleanupOldFiles :: "world \<Rightarrow> world" where
  "cleanupOldFiles w =
     (case fs_fault w of
        Some e \<Rightarrow> w
      | None \<Rightarrow>
          w\<lparr>files := (\<lambda>file. case files w file of
                         None \<Rightarrow> None
                       | Some stat \<Rightarrow> if now w - mtimeMs stat > MAX_AGE_MS then None
                                      else Some stat)\<rparr>)"

section \<open>Response formatter (shared/formatter.ts)\<close>

definition MAX_RESULT_BYTES :: nat where
  "MAX_RESULT_BYTES = 50 * 1024"

definition MAX_TABLE_ROWS :: nat where
  "MAX_TABLE_ROWS = 200"

definition MAX_CELL_WIDTH :: nat where
  "MAX_CELL_WIDTH = 80"

definition truncateCell :: "jsval \<Rightarrow> jsstring" where
  "truncateCell v =
     (let str = (if v = Null \<or> v = Undefined then [] else js_String v)
      in if length str > MAX_CELL_WIDTH then take (MAX_CELL_WIDTH - 1) str @ [0x2026]
         else str)"

definition table_line :: "jsstring list \<Rightarrow> jsstring" where
  "table_line cells = lit ''| '' @ js_join (lit '' | '') cells @ lit '' |''"

definition more_rows_line :: "nat \<Rightarrow> jsstring" where
  "more_rows_line n =
     lit ''_'' @ [0x2026] @ lit '' and '' @ digits n @ lit '' more rows (see full results file)_''"

text \<open>The array \<open>lines\<close> that \<open>buildMarkdownTable\<close> joins, for a non-empty result set.\<close>

definition table_lines :: "js_object \<Rightarrow> js_object list \<Rightarrow> nat \<Rightarrow> jsstring list" where
  "table_lines row0 rows maxRows =
     (let columns = Object_keys row0;
          displayRows = take maxRows rows;
          header = table_line columns;
          separator = table_line (map (\<lambda>col. lit ''---'') columns);
          body = map (\<lambda>row. table_line (map (\<lambda>col. truncateCell (js_get row col)) columns))
                   displayRows;
          lines = [header, separator] @ body
      in if length rows > maxRows then lines @ [[], more_rows_line (length rows - maxRows)]
         else lines)"

definition buildMarkdownTable :: "js_object list \<Rightarrow> nat \<Rightarrow> jsstring" where
  "buildMarkdownTable rows maxRows =
     (case rows of
        [] \<Rightarrow> lit ''_No rows returned._''
      | row0 # _ \<Rightarrow> js_join [0x0A] (table_lines row0 rows maxRows))"

definition buildMetadataHeader :: "js_object \<Rightarrow> jsstring" where
  "buildMetadataHeader metadata =
     js_join (lit '' | '')
       (map (\<lambda>(key, v). lit ''**'' @ key @ lit '':** '' @ js_String v) metadata)"

text \<open>The table of the variant that neither caps the rows nor truncates the cells.\<close>

definition cellToString :: "jsval \<Rightarrow> jsstring" where
  "cellToString v = (if v = Null \<or> v = Undefined then [] else js_String v)"

definition buildMarkdownTable_uncapped :: "js_object list \<Rightarrow> jsstring" where
  "buildMarkdownTable_uncapped rows =
     (case rows of
        [] \<Rightarrow> lit ''_No rows returned._''
      | row0 # _ \<Rightarrow>
          (let columns = Object_keys row0;
               header = table_line columns;
               separator = table_line (map (\<lambda>col. lit ''---'') columns);
               body = map (\<lambda>row. table_line (map (\<lambda>col. cellToString (js_get row col)) columns))
                        rows
           in js_join [0x0A] ([header, separator] @ body)))"

datatype response_format = Table | Json

record FormatOptions =
  toolName :: jsstring
  metadata :: js_object
  rows :: "js_object list"
  responseFormat :: "response_format option"
  rawResult :: jsval

text \<open>A tool response: the texts of its content blocks (all of type \<open>text\<close>) and the flag.\<close>

record tool_response =
  content :: "jsstring list"
  isError :: bool

definition resultPayload_of :: "FormatOptions \<Rightarrow> jsval" where
  "resultPayload_of options =
     (if rawResult options = Undefined \<or> rawResult options = Null
      then Obj [(lit ''metadata'', Obj (metadata options)),
                (lit ''rows'', Arr (map Obj (rows options)))]
      else rawResult options)"

definition json_overflow_text :: "jsstring \<Rightarrow> nat \<Rightarrow> jsstring \<Rightarrow> jsstring" where
  "json_overflow_text metaHeader n filepath =
     metaHeader @ [0x0A, 0x0A] @ lit ''Result too large ('' @ digits n
     @ lit '' bytes). Full JSON written to:'' @ [0x0A, 0x60] @ filepath @ [0x60]"

definition json_inline_text :: "jsstring \<Rightarrow> jsstring \<Rightarrow> jsstring" where
  "json_inline_text metaHeader serialized =
     metaHeader @ [0x0A, 0x0A, 0x60, 0x60, 0x60] @ lit ''json'' @ [0x0A] @ serialized
     @ [0x0A, 0x60, 0x60, 0x60]"

definition table_overflow_text ::
  "jsstring \<Rightarrow> jsstring \<Rightarrow> nat \<Rightarrow> nat \<Rightarrow> jsstring \<Rightarrow> jsstring" where
  "table_overflow_text metaHeader table nrows n filepath =
     metaHeader @ [0x0A, 0x0A] @ table @ [0x0A, 0x0A] @ lit ''Full results ('' @ digits nrows
     @ lit '' rows, '' @ digits n @ lit '' bytes) written to:'' @ [0x0A, 0x60] @ filepath
     @ [0x60]"

definition table_inline_text :: "jsstring \<Rightarrow> jsstring \<Rightarrow> jsstring" where
  "table_inline_text metaHeader table = metaHeader @ [0x0A, 0x0A] @ table"

text \<open>
  \<open>formatToolResponse\<close> of the variant that caps the table at 200 rows and truncates
  cells.  It returns the response and the world it leaves, or the error it throws (a
  failure of \<open>writeResultFile\<close> is not caught here).
\<close>

definition formatToolResponse :: "world \<Rightarrow> FormatOptions \<Rightarrow> js_error + (tool_response \<times> world)"
  where
  "formatToolResponse w0 options =
     (let w = cleanupOldFiles w0;
          fmt = (case responseFormat options of None \<Rightarrow> Table | Some f \<Rightarrow> f);
          resultPayload = resultPayload_of options
      in case JSON_stringify resultPayload of
           None \<Rightarrow> Inl (TypeError (lit ''Cannot read properties of undefined''))
         | Some serialized \<Rightarrow>
             (let overflows = length serialized > MAX_RESULT_BYTES;
                  metaHeader = buildMetadataHeader (metadata options)
              in if fmt = Json then
                   (if overflows then
                      (case writeResultFile w (toolName options) resultPayload of
                         Inl e \<Rightarrow> Inl e
                       | Inr (filepath, w') \<Rightarrow>
                           Inr (\<lparr>content = [json_overflow_text metaHeader (length serialized)
                                                filepath],
                                 isError = False\<rparr>, w'))
                    else Inr (\<lparr>content = [json_inline_text metaHeader serialized],
                               isError = False\<rparr>, w))
                 else
                   (let table = buildMarkdownTable (rows options) MAX_TABLE_ROWS
                    in if overflows then
                         (case writeResultFile w (toolName options) resultPayload of
                            Inl e \<Rightarrow> Inl e
                          | Inr (filepath, w') \<Rightarrow>
                              Inr (\<lparr>content = [table_overflow_text metaHeader table
                                                   (length (rows options)) (length serialized)
                                                   filepath],
                                    isError = False\<rparr>, w'))
                       else Inr (\<lparr>content = [table_inline_text metaHeader table],
                                  isError = False\<rparr>, w))))"

definition formatErrorResponse :: "jsstring \<Rightarrow> js_error \<Rightarrow> tool_response" where
  "formatErrorResponse backendName error =
     (let message = (case error of ErrorObject n m \<Rightarrow> m | NonError v \<Rightarrow> js_String v)
      in \<lparr>content = [backendName @ lit '' error: '' @ message], isError = True\<rparr>)"

subsection \<open>The formatter of the variant without row cap and cell truncation\<close>

definition formatToolResponse_uncapped ::
  "world \<Rightarrow> FormatOptions \<Rightarrow> js_error + (tool_response \<times> world)" where
  "formatToolResponse_uncapped w0 options =
     (let w = cleanupOldFiles w0;
          fmt = (case responseFormat options of None \<Rightarrow> Table | Some f \<Rightarrow> f);
          resultPayload = resultPayload_of options
      in case JSON_stringify resultPayload of
           None \<Rightarrow> Inl (TypeError (lit ''Cannot read properties of undefined''))
         | Some serialized \<Rightarrow>
             (let overflows = length serialized > MAX_RESULT_BYTES;
                  metaHeader = buildMetadataHeader (metadata options)
              in if fmt = Json then
                   (if overflows then
                      (case writeResultFile w (toolName options) resultPayload of
                         Inl e \<Rightarrow> Inl e
                       | Inr (filepath, w') \<Rightarrow>
                           Inr (\<lparr>content = [json_overflow_text metaHeader (length serialized)
                                                filepath],
                                 isError = False\<rparr>, w'))
                    else Inr (\<lparr>content = [json_inline_text metaHeader serialized],
                               isError = False\<rparr>, w))
                 else
                   (let table = buildMarkdownTable_uncapped (rows options)
                    in if overflows then
                         (case writeResultFile w (toolName options) resultPayload of
                            Inl e \<Rightarrow> Inl e
                          | Inr (filepath, w') \<Rightarrow>
                              Inr (\<lparr>content = [table_overflow_text metaHeader table
                                                   (length (rows options)) (length serialized)
                                                   filepath],
                                    isError = False\<rparr>, w'))
                       else Inr (\<lparr>content = [table_inline_text metaHeader table],
                                  isError = False\<rparr>, w))))"

section \<open>Tool handlers\<close>

text \<open>
  Each handler first validates its input with a zod schema; \<open>parse\<close> throws a
  \<open>ZodError\<close> on an input the schema rejects (its message, a list of issues, is
  abridged here).  A timeout, when given, must be a positive integer.
\<close>

definition ZodError :: "jsstring \<Rightarrow> js_error" where
  "ZodError msg = ErrorObject (lit ''ZodError'') msg"

fun timeoutMs_schema :: "jsval \<Rightarrow> bool" where
  "timeoutMs_schema Undefined = True"
| "timeoutMs_schema (Num (Finite q)) = (of_int \<lfloor>q\<rfloor> = q \<and> 0 < q)"
| "timeoutMs_schema _ = False"

fun responseFormat_schema :: "jsval \<Rightarrow> response_format option" where
  "responseFormat_schema Undefined = Some Table"
| "responseFormat_schema (Str f) =
     (if f = lit ''table'' then Some Table else if f = lit ''json'' then Some Json else None)"
| "responseFormat_schema _ = None"

fun nonempty_string_schema :: "jsval \<Rightarrow> jsstring option" where
  "nonempty_string_schema (Str s) = (if s = [] then None else Some s)"
| "nonempty_string_schema _ = None"

subsection \<open>PostgreSQL (tools/postgres.ts)\<close>

record sql_query_args =
  arg_sql :: jsstring
  arg_timeoutMs :: jsval
  arg_responseFormat :: response_format

definition sqlQueryInputSchema_parse :: "js_object \<Rightarrow> js_error + sql_query_args" where
  "sqlQueryInputSchema_parse input =
     (case nonempty_string_schema (js_get input (lit ''sql'')) of
        None \<Rightarrow> Inl (ZodError (lit ''SQL query must be provided''))
      | Some s \<Rightarrow>
          if \<not> timeoutMs_schema (js_get input (lit ''timeoutMs''))
          then Inl (ZodError (lit ''Invalid input: timeoutMs''))
          else (case responseFormat_schema (js_get input (lit ''responseFormat'')) of
                  None \<Rightarrow> Inl (ZodError (lit ''Invalid input: responseFormat''))
                | Some f \<Rightarrow>
                    Inr \<lparr>arg_sql = s, arg_timeoutMs = js_get input (lit ''timeoutMs''),
                         arg_responseFormat = f\<rparr>))"

text \<open>
  What the database answers to one invocation: whether the pool hands out a client, and
  the outcome of each of the three statements the handler may send.  \<open>None\<close> is success
  for a call whose result is not used.
\<close>

record pg_result =
  result_rowCount :: jsval
  result_rows :: "js_object list"
  result_fields :: "(jsstring \<times> jsval) list"

record pg_backend =
  connect_outcome :: "js_error option"
  set_timeout_outcome :: "js_error option"
  query_outcome :: "js_error + pg_result"
  reset_outcome :: "js_error option"

text \<open>The calls the handler makes on the pool and the client, in the order it makes them.\<close>

datatype pg_event = Connect | Query jsstring | Release

definition set_statement :: "jsnumber \<Rightarrow> jsstring" where
  "set_statement timeout = lit ''SET statement_timeout = '' @ Number_toString timeout"

definition reset_statement :: jsstring where
  "reset_statement = lit ''SET statement_timeout = DEFAULT''"

definition sql_format_options :: "sql_query_args \<Rightarrow> jsnumber \<Rightarrow> pg_result \<Rightarrow> FormatOptions" where
  "sql_format_options parsed timeout result =
     (let rowCount = (case result_rowCount result of
                        Num n \<Rightarrow> Num n
                      | _ \<Rightarrow> Num (Finite (of_nat (length (result_rows result)))))
      in \<lparr>toolName = lit ''sql_query'',
          metadata = [(lit ''Rows'', rowCount),
                      (lit ''Timeout'', Str (Number_toString timeout @ lit ''ms''))],
          rows = result_rows result,
          responseFormat = Some (arg_responseFormat parsed),
          rawResult =
            Obj [(lit ''fields'',
                  Arr (map (\<lambda>f. Obj [(lit ''name'', Str (fst f)), (lit ''dataTypeID'', snd f)])
                        (result_fields result))),
                 (lit ''rowCount'', rowCount),
                 (lit ''rows'', Arr (map Obj (result_rows result))),
                 (lit ''timeoutMs'', Num timeout)]\<rparr>)"

text \<open>
  The body of the \<open>try\<close> block with its \<open>catch\<close>: the statements sent, the world left
  and the response returned.  Nothing escapes it, since the \<open>catch\<close> turns every error
  into a response.
\<close>

definition sql_query_try ::
  "pg_backend \<Rightarrow> world \<Rightarrow> sql_query_args \<Rightarrow> jsnumber \<Rightarrow> pg_event list \<times> world \<times> tool_response"
  where
  "sql_query_try db w parsed timeout =
     (case set_timeout_outcome db of
        Some error \<Rightarrow> ([Query (set_statement timeout)], w, formatErrorResponse (lit ''PostgreSQL'') error)
      | None \<Rightarrow>
          (case query_outcome db of
             Inl error \<Rightarrow>
               ([Query (set_statement timeout), Query (arg_sql parsed)], w,
                formatErrorResponse (lit ''PostgreSQL'') error)
           | Inr result \<Rightarrow>
               (case formatToolResponse w (sql_format_options parsed timeout result) of
                  Inl error \<Rightarrow>
                    ([Query (set_statement timeout), Query (arg_sql parsed)], cleanupOldFiles w,
                     formatErrorResponse (lit ''PostgreSQL'') error)
                | Inr (response, w') \<Rightarrow>
                    ([Query (set_statement timeout), Query (arg_sql parsed)], w', response))))"

text \<open>
  The handler of \<open>sql_query\<close>, which \<open>registerPostgresTools\<close> registers.  The
  schema check and \<open>pool.connect()\<close> come before the
  \<open>try\<close>, so an error of either leaves the handler; the \<open>finally\<close> block sends the
  reset, ignoring its failure, and releases the client.
\<close>

definition sql_query_handler ::
  "pg_backend \<Rightarrow> world \<Rightarrow> js_object \<Rightarrow> pg_event list \<times> world \<times> (js_error + tool_response)"
  where
  "sql_query_handler db w input =
     (case sqlQueryInputSchema_parse input of
        Inl error \<Rightarrow> ([], w, Inl error)
      | Inr parsed \<Rightarrow>
          (let timeout = resolveTimeout (arg_timeoutMs parsed)
           in case connect_outcome db of
                Some error \<Rightarrow> ([Connect], w, Inl error)
              | None \<Rightarrow>
                  (case sql_query_try db w parsed timeout of
                     (events, w', response) \<Rightarrow>
                       ([Connect] @ events @ [Query reset_statement, Release], w',
                        Inr response))))"

subsection \<open>GraphQL (tools/graphql.ts)\<close>

record graphql_query_args =
  arg_query :: jsstring
  arg_operationName :: jsval
  arg_variables :: jsval
  arg_gql_timeoutMs :: jsval

fun operationName_schema :: "jsval \<Rightarrow> bool" where
  "operationName_schema Undefined = True"
| "operationName_schema (Str s) = (s \<noteq> [])"
| "operationName_schema _ = False"

fun variables_schema :: "jsval \<Rightarrow> bool" where
  "variables_schema Undefined = True"
| "variables_schema (Obj ps) = True"
| "variables_schema _ = False"

definition graphqlQueryInputSchema_parse :: "js_object \<Rightarrow> js_error + graphql_query_args" where
  "graphqlQueryInputSchema_parse input =
     (case nonempty_string_schema (js_get input (lit ''query'')) of
        None \<Rightarrow> Inl (ZodError (lit ''GraphQL query must be provided''))
      | Some q \<Rightarrow>
          if \<not> operationName_schema (js_get input (lit ''operationName''))
          then Inl (ZodError (lit ''Invalid input: operationName''))
          else if \<not> variables_schema (js_get input (lit ''variables''))
          then Inl (ZodError (lit ''Invalid input: variables''))
          else if \<not> timeoutMs_schema (js_get input (lit ''timeoutMs''))
          then Inl (ZodError (lit ''Invalid input: timeoutMs''))
          else Inr \<lparr>arg_query = q,
                    arg_operationName = js_get input (lit ''operationName''),
                    arg_variables = js_get input (lit ''variables''),
                    arg_gql_timeoutMs = js_get input (lit ''timeoutMs'')\<rparr>)"

text \<open>
  What the network answers to one request.  \<open>fetch\<close> and \<open>response.text()\<close> each fulfil
  or reject; when the timer set for the resolved timeout fires first, \<open>controller.abort()\<close>
  makes the pending one reject with an error named \<open>AbortError\<close>.  \<open>body_json\<close> is what
  \<open>JSON.parse\<close> makes of the body text, \<open>None\<close> when it throws.
\<close>

datatype 'a settled = Fulfilled 'a | Rejected js_error

record http_response =
  response_ok :: bool
  response_status :: nat
  response_statusText :: jsstring
  response_text :: "jsstring settled"
  body_json :: "jsval option"

definition AbortError :: js_error where
  "AbortError = ErrorObject (lit ''AbortError'') (lit ''This operation was aborted'')"

definition is_AbortError :: "js_error \<Rightarrow> bool" where
  "is_AbortError error =
     (case error of ErrorObject n m \<Rightarrow> n = lit ''AbortError'' | NonError v \<Rightarrow> False)"

text \<open>
  Reading a property: of \<open>null\<close> or \<open>undefined\<close> it throws a TypeError; of an object it
  gives the property or \<open>undefined\<close>; the other values have no property named \<open>data\<close> or
  \<open>errors\<close>, the only names read here.
\<close>

fun js_member :: "jsval \<Rightarrow> jsstring \<Rightarrow> js_error + jsval" where
  "js_member Undefined key =
     Inl (TypeError (lit ''Cannot read properties of undefined (reading '' @ [0x27] @ key
                     @ [0x27] @ lit '')''))"
| "js_member Null key =
     Inl (TypeError (lit ''Cannot read properties of null (reading '' @ [0x27] @ key
                     @ [0x27] @ lit '')''))"
| "js_member (Obj ps) key = Inr (js_get ps key)"
| "js_member _ key = Inr Undefined"

definition hasErrors_of :: "jsval \<Rightarrow> bool" where
  "hasErrors_of errors = (case errors of Arr xs \<Rightarrow> length xs > 0 | _ \<Rightarrow> False)"

definition errors_length :: "jsval \<Rightarrow> nat" where
  "errors_length errors = (case errors of Arr xs \<Rightarrow> length xs | _ \<Rightarrow> 0)"

definition graphql_resultJson :: "jsval \<Rightarrow> jsval \<Rightarrow> jsnumber \<Rightarrow> jsstring" where
  "graphql_resultJson d errors timeout =
     (case JSON_stringify_2 (Obj [(lit ''data'', d), (lit ''errors'', errors),
                                  (lit ''timeoutMs'', Num timeout)]) of
        Some s \<Rightarrow> s | None \<Rightarrow> lit ''undefined'')"

definition graphql_statusPrefix :: "jsval \<Rightarrow> jsnumber \<Rightarrow> jsstring" where
  "graphql_statusPrefix errors timeout =
     (if hasErrors_of errors
      then lit ''**Errors:** '' @ digits (errors_length errors) @ lit '' | **Timeout:** ''
           @ Number_toString timeout @ lit ''ms'' @ [0x0A, 0x0A]
           @ lit ''GraphQL returned data with errors.''
      else lit ''**Timeout:** '' @ Number_toString timeout @ lit ''ms'')"

definition graphql_success_text :: "jsval \<Rightarrow> jsval \<Rightarrow> jsnumber \<Rightarrow> jsstring" where
  "graphql_success_text d errors timeout =
     graphql_statusPrefix errors timeout @ [0x0A, 0x0A, 0x60, 0x60, 0x60] @ lit ''json'' @ [0x0A]
     @ graphql_resultJson d errors timeout @ [0x0A, 0x60, 0x60, 0x60]"

text \<open>The body of the \<open>try\<close> block: the response it returns or the error it throws.\<close>

definition graphql_query_try :: "http_response settled \<Rightarrow> jsnumber \<Rightarrow> js_error + tool_response"
  where
  "graphql_query_try fetched timeout =
     (case fetched of
        Rejected error \<Rightarrow> Inl error
      | Fulfilled response \<Rightarrow>
          (case response_text response of
             Rejected error \<Rightarrow> Inl error
           | Fulfilled responseText \<Rightarrow>
               (case (if responseText \<noteq> []
                      then (case body_json response of
                              None \<Rightarrow> Inl (new_Error (lit ''Unable to parse GraphQL response as JSON''))
                            | Some parsed \<Rightarrow> Inr parsed)
                      else Inr (Obj [])) of
                  Inl error \<Rightarrow> Inl error
                | Inr payload \<Rightarrow>
                    if \<not> response_ok response
                    then Inl (new_Error
                           (lit ''GraphQL request failed ('' @ digits (response_status response)
                            @ lit ''): ''
                            @ (if response_statusText response = [] then lit ''Unknown error''
                               else response_statusText response)))
                    else (case js_member payload (lit ''errors'') of
                            Inl error \<Rightarrow> Inl error
                          | Inr errors \<Rightarrow>
                              (case js_member payload (lit ''data'') of
                                 Inl error \<Rightarrow> Inl error
                               | Inr d \<Rightarrow>
                                   Inr \<lparr>content = [graphql_success_text d errors timeout],
                                        isError = hasErrors_of errors\<rparr>)))))"

text \<open>
  The handler of \<open>graphql_query\<close>, which \<open>registerGraphqlTools\<close> registers: the
  schema check, then the \<open>try\<close> block with its
  \<open>catch\<close>, which reports an abort under a message of its own.  The request sent is not
  part of the model, the answer of the network being given.
\<close>

definition graphql_query_handler :: "http_response settled \<Rightarrow> js_object \<Rightarrow> js_error + tool_response"
  where
  "graphql_query_handler fetched input =
     (case graphqlQueryInputSchema_parse input of
        Inl error \<Rightarrow> Inl error
      | Inr parsed \<Rightarrow>
          (let timeout = resolveTimeout (arg_gql_timeoutMs parsed)
           in case graphql_query_try fetched timeout of
                Inr response \<Rightarrow> Inr response
              | Inl error \<Rightarrow>
                  if is_AbortError error
                  then Inr (formatErrorResponse (lit ''GraphQL'')
                             (new_Error (lit ''Request aborted after '' @ Number_toString timeout
                                         @ lit ''ms'')))
                  else Inr (formatErrorResponse (lit ''GraphQL'') error)))"

subsection \<open>BigQuery start-up check (tools/bigquery.ts) and process start (index.ts)\<close>

text \<open>\<open>String.prototype.includes\<close>.\<close>

fun js_includes :: "jsstring \<Rightarrow> jsstring \<Rightarrow> bool" where
  "js_includes [] sub = (sub = [])"
| "js_includes (c # s) sub = (take (length sub) (c # s) = sub \<or> js_includes s sub)"

definition mentions_write_permissions :: "js_error \<Rightarrow> bool" where
  "mentions_write_permissions error =
     (case error of
        ErrorObject n m \<Rightarrow> js_includes m (lit ''write permissions'')
      | NonError v \<Rightarrow> False)"

text \<open>
  What BigQuery answers at start-up: the dataset ids \<open>getDatasets\<close> returns or the error
  it throws, and whether the dry run of the \<open>CREATE TABLE\<close> job throws (\<open>None\<close>: it
  validates).
\<close>

record bq_client =
  getDatasets_outcome :: "js_error + jsstring list"
  dryRun_outcome :: "js_error option"

definition too_permissive_error :: "jsstring \<Rightarrow> js_error" where
  "too_permissive_error datasetId =
     new_Error (lit ''BigQuery service account has write permissions on dataset '' @ [0x27]
                @ datasetId @ [0x27] @ lit ''. ''
                @ lit ''Use a read-only service account for safety.'')"

definition error_text :: "js_error \<Rightarrow> jsstring" where
  "error_text error = (case error of ErrorObject n m \<Rightarrow> m | NonError v \<Rightarrow> js_String v)"

text \<open>
  \<open>verifyReadOnly\<close>: the lines it logs and the error it throws, if any.  The inner
  \<open>try\<close> is the dry run, whose success throws the too-permissive error; each \<open>catch\<close>
  rethrows an error whose message contains \<open>write permissions\<close> and swallows any other.
\<close>

definition verifyReadOnly_inner :: "bq_client \<Rightarrow> jsstring list \<times> js_error option" where
  "verifyReadOnly_inner client =
     (case getDatasets_outcome client of
        Inl error \<Rightarrow> ([], Some error)
      | Inr datasets \<Rightarrow>
          (case datasets of
             [] \<Rightarrow> ([lit ''BigQuery: no datasets found, skipping write permission check''], None)
           | datasetId # _ \<Rightarrow>
               (let error = (case dryRun_outcome client of
                               None \<Rightarrow> too_permissive_error datasetId
                             | Some e \<Rightarrow> e)
                in if mentions_write_permissions error then ([], Some error)
                   else ([lit ''BigQuery: service account verified as read-only''], None))))"

definition verifyReadOnly :: "bq_client \<Rightarrow> jsstring list \<times> js_error option" where
  "verifyReadOnly client =
     (case verifyReadOnly_inner client of
        (logged, None) \<Rightarrow> (logged, None)
      | (logged, Some error) \<Rightarrow>
          if mentions_write_permissions error then (logged, Some error)
          else (logged @ [lit ''BigQuery: could not verify permissions ('' @ error_text error
                          @ lit ''), proceeding''], None))"

text \<open>
  The configuration names the backends that are set up.  \<open>registerTools\<close> gives the
  list of registered backends, the error that start-up threw, or the exit it made itself
  when no backend is configured.
\<close>

record AppConfig =
  environment :: jsstring
  postgres :: "jsstring option"
  clickhouse :: "jsstring option"
  graphql :: "jsstring option"
  bigquery :: "jsstring option"

datatype 'a completion = Returned 'a | Threw js_error | ProcessExit nat

definition registerTools :: "AppConfig \<Rightarrow> bq_client \<Rightarrow> (jsstring list) completion" where
  "registerTools config client =
     (let registered =
            (if postgres config \<noteq> None then [lit ''postgres''] else [])
            @ (if clickhouse config \<noteq> None then [lit ''clickhouse''] else [])
            @ (if graphql config \<noteq> None then [lit ''graphql''] else [])
      in case bigquery config of
           None \<Rightarrow> if length registered = 0 then ProcessExit 1 else Returned registered
         | Some credentials \<Rightarrow>
             (case snd (verifyReadOnly client) of
                Some error \<Rightarrow> Threw error
              | None \<Rightarrow> Returned (registered @ [lit ''bigquery''])))"

text \<open>
  \<open>start\<close>: the server is connected to its transport, and so begins to accept tool
  calls, only after \<open>registerTools\<close> has returned; an error thrown before that is
  logged and the process exits with status 1.
\<close>

datatype startup = Exited nat | Serving "jsstring list"

definition start :: "AppConfig \<Rightarrow> bq_client \<Rightarrow> startup" where
  "start config client =
     (case registerTools config client of
        Returned registered \<Rightarrow> Serving registered
      | Threw error \<Rightarrow> Exited 1
      | ProcessExit code \<Rightarrow> Exited code)"

section \<open>Vocabulary of the statements\<close>

text \<open>The cells a table renders: the columns of the first row, read in every row.\<close>

definition rendered_cells :: "js_object list \<Rightarrow> jsval list" where
  "rendered_cells rs =
     (case rs of
        [] \<Rightarrow> []
      | row0 # _ \<Rightarrow> concat (map (\<lambda>row. map (\<lambda>col. js_get row col) (Object_keys row0)) rs))"

text \<open>The number of lines of a text: one more than its line feeds.\<close>

definition line_count :: "jsstring \<Rightarrow> nat" where
  "line_count s = Suc (count_list s 0x0A)"

text \<open>The three kinds of line of a table whose first row is \<open>row0\<close>.\<close>

definition header_line :: "js_object \<Rightarrow> jsstring" where
  "header_line row0 = table_line (Object_keys row0)"

definition separator_line :: "js_object \<Rightarrow> jsstring" where
  "separator_line row0 = table_line (map (\<lambda>col. lit ''---'') (Object_keys row0))"

definition data_line :: "js_object \<Rightarrow> js_object \<Rightarrow> jsstring" where
  "data_line row0 row = table_line (map (\<lambda>col. truncateCell (js_get row col)) (Object_keys row0))"

text \<open>A world with an empty results directory and no fault, for the examples.\<close>

definition quiet_world :: world where
  "quiet_world =
     \<lparr>now = 1700000000000, tmpdir = lit ''/tmp'', files = Map.empty, fs_fault = None,
      md5_hex = (\<lambda>s. lit ''9e107d9d372bb6826bd81d3542a419d6'')\<rparr>"

text \<open>A payload of 25600 accented letters (U+00E9), asked for in json mode.\<close>

definition accented_text :: jsstring where
  "accented_text = replicate 25600 0xE9"

definition accented_options :: FormatOptions where
  "accented_options =
     \<lparr>toolName = lit ''sql_query'', metadata = [], rows = [], responseFormat = Some Json,
      rawResult = Str accented_text\<rparr>"

text \<open>A result set of one row with one small cell, in table mode.\<close>

definition small_options :: FormatOptions where
  "small_options =
     \<lparr>toolName = lit ''sql_query'', metadata = [(lit ''Rows'', Num (Finite 1))],
      rows = [[(lit ''id'', Num (Finite 7))]], responseFormat = None, rawResult = Undefined\<rparr>"

text \<open>Inputs, databases and network answers for the examples.\<close>

definition select_input :: js_object where
  "select_input = [(lit ''sql'', Str (lit ''SELECT 1''))]"

definition unreachable_db :: pg_backend where
  "unreachable_db =
     \<lparr>connect_outcome = Some (new_Error (lit ''connect ECONNREFUSED 127.0.0.1:5432'')),
      set_timeout_outcome = None,
      query_outcome = Inl (new_Error (lit ''unused'')),
      reset_outcome = None\<rparr>"

definition failing_db :: pg_backend where
  "failing_db =
     \<lparr>connect_outcome = None,
      set_timeout_outcome = None,
      query_outcome = Inl (new_Error (lit ''syntax error at or near FROM'')),
      reset_outcome = Some (new_Error (lit ''connection terminated''))\<rparr>"


definition users_input :: js_object where
  "users_input = [(lit ''query'', Str (lit ''query { users { id } }''))]"

definition errors_body :: jsval where
  "errors_body =
     Obj [(lit ''data'', Null),
          (lit ''errors'', Arr [Obj [(lit ''message'', Str (lit ''field not found''))]])]"

definition bigquery_only :: AppConfig where
  "bigquery_only =
     \<lparr>environment = lit ''dev'', postgres = None, clickhouse = None, graphql = None,
      bigquery = Some (lit ''/path/to/service-account.json'')\<rparr>"

definition listing_refused :: bq_client where
  "listing_refused =
     \<lparr>getDatasets_outcome = Inl (new_Error (lit ''Access Denied: caller lacks write permissions'')),
      dryRun_outcome = None\<rparr>"

definition writable_account :: bq_client where
  "writable_account = \<lparr>getDatasets_outcome = Inr [lit ''analytics''], dryRun_outcome = None\<rparr>"


definition empty_account :: bq_client where
  "empty_account = \<lparr>getDatasets_outcome = Inr [], dryRun_outcome = None\<rparr>"

definition offline_account :: bq_client where
  "offline_account =
     \<lparr>getDatasets_outcome = Inl (new_Error (lit ''getaddrinfo ENOTFOUND bigquery.googleapis.com'')),
      dryRun_outcome = None\<rparr>"

definition data_body :: jsval where
  "data_body = Obj [(lit ''data'', Obj [(lit ''users'', Arr [])])]"

text \<open>
  The property of a parsed body that the GraphQL handler reads: a value that is not an
  object has none.  \<open>json_response\<close> is an OK response whose body is the JSON text of a
  value, and the texts below are the answers expected for the example bodies.
\<close>

definition json_member :: "jsval \<Rightarrow> jsstring \<Rightarrow> jsval" where
  "json_member v key = (case v of Obj ps \<Rightarrow> js_get ps key | _ \<Rightarrow> Undefined)"

definition json_response :: "jsval \<Rightarrow> http_response" where
  "json_response v =
     \<lparr>response_ok = True, response_status = 200, response_statusText = lit ''OK'',
      response_text = Fulfilled (case JSON_stringify v of Some s \<Rightarrow> s | None \<Rightarrow> []),
      body_json = Some v\<rparr>"

definition dq :: "string \<Rightarrow> jsstring" where
  "dq s = [0x22] @ lit s @ [0x22]"

definition fence :: jsstring where
  "fence = [0x60, 0x60, 0x60]"

definition errors_response_text :: jsstring where
  "errors_response_text =
     js_join [0x0A]
       [lit ''**Errors:** 1 | **Timeout:** 30000ms'',
        [],
        lit ''GraphQL returned data with errors.'',
        [],
        fence @ lit ''json'',
        lit ''{'',
        lit ''  '' @ dq ''data'' @ lit '': null,'',
        lit ''  '' @ dq ''errors'' @ lit '': ['',
        lit ''    {'',
        lit ''      '' @ dq ''message'' @ lit '': '' @ dq ''field not found'',
        lit ''    }'',
        lit ''  ],'',
        lit ''  '' @ dq ''timeoutMs'' @ lit '': 30000'',
        lit ''}'',
        fence]"

definition data_response_text :: jsstring where
  "data_response_text =
     js_join [0x0A]
       [lit ''**Timeout:** 30000ms'',
        [],
        fence @ lit ''json'',
        lit ''{'',
        lit ''  '' @ dq ''data'' @ lit '': {'',
        lit ''    '' @ dq ''users'' @ lit '': []'',
        lit ''  },'',
        lit ''  '' @ dq ''timeoutMs'' @ lit '': 30000'',
        lit ''}'',
        fence]"

definition scalar_response_text :: jsstring where
  "scalar_response_text =
     js_join [0x0A]
       [lit ''**Timeout:** 30000ms'',
        [],
        fence @ lit ''json'',
        lit ''{'',
        lit ''  '' @ dq ''timeoutMs'' @ lit '': 30000'',
        lit ''}'',
        fence]"

definition null_response_text :: jsstring where
  "null_response_text =
     lit ''GraphQL error: Cannot read properties of null (reading '' @ [0x27] @ lit ''errors''
     @ [0x27] @ lit '')''"


definition empty_response :: http_response where
  "empty_response =
     \<lparr>response_ok = True, response_status = 200, response_statusText = lit ''OK'',
      response_text = Fulfilled [], body_json = None\<rparr>"


text \<open>More inputs and databases for the examples of the PostgreSQL handler.\<close>

definition timed_input :: js_object where
  "timed_input = [(lit ''sql'', Str (lit ''SELECT 1'')), (lit ''timeoutMs'', Num (Finite 2000))]"

definition long_input :: js_object where
  "long_input = [(lit ''sql'', Str (lit ''SELECT 1'')), (lit ''timeoutMs'', Num (Finite 999999))]"

definition set_failing_db :: pg_backend where
  "set_failing_db =
     \<lparr>connect_outcome = None,
      set_timeout_outcome = Some (new_Error (lit ''Connection terminated unexpectedly'')),
      query_outcome = Inl (new_Error (lit ''unused'')),
      reset_outcome = Some (new_Error (lit ''Connection terminated unexpectedly''))\<rparr>"

definition answering_db :: pg_backend where
  "answering_db =
     \<lparr>connect_outcome = None,
      set_timeout_outcome = None,
      query_outcome = Inr \<lparr>result_rowCount = Num (Finite 1),
                             result_rows = [[(lit ''id'', Num (Finite 7))]],
                             result_fields = [(lit ''id'', Num (Finite 23))]\<rparr>,
      reset_outcome = None\<rparr>"


section \<open>Properties of the timeout resolver\<close>

lemma resolveTimeout_finite:
  "resolveTimeout (Num (Finite q)) = Finite (of_int (clamp_ms (trunc_rat q)))"
proof -
  let ?k = "trunc_rat q"
  have lt: "(rat_of_int ?k < 1000) = (?k < 1000)"
    using of_int_less_iff [of ?k 1000, where ?'a = rat] by simp
  have gt: "(300000 < rat_of_int ?k) = (300000 < ?k)"
    using of_int_less_iff [of 300000 ?k, where ?'a = rat] by simp
  show ?thesis
    by (simp add: DEFAULT_TIMEOUT_MS_def MIN_TIMEOUT_MS_def MAX_TIMEOUT_MS_def
        js_gt_def clamp_ms_def Let_def lt gt)
qed

lemma clamp_ms_range: "1000 \<le> clamp_ms k \<and> clamp_ms k \<le> 300000"
  by (simp add: clamp_ms_def)

lemma resolveTimeout_cases:
  "resolveTimeout t = DEFAULT_TIMEOUT_MS \<or> resolveTimeout t = MIN_TIMEOUT_MS
   \<or> resolveTimeout t = MAX_TIMEOUT_MS
   \<or> (\<exists>q. t = Num (Finite q) \<and> resolveTimeout t = Finite (of_int (clamp_ms (trunc_rat q))))"
proof (cases t)
  case (Num n)
  show ?thesis
  proof (cases n)
    case (Finite q)
    with Num show ?thesis using resolveTimeout_finite [of q] by blast
  qed (simp_all add: Num js_gt_def MIN_TIMEOUT_MS_def MAX_TIMEOUT_MS_def)
qed simp_all

lemma resolveTimeout_int:
  "\<exists>k. resolveTimeout t = Finite (of_int k) \<and> 1000 \<le> k \<and> k \<le> 300000"
proof -
  have d: "DEFAULT_TIMEOUT_MS = Finite (of_int 30000)"
    and l: "MIN_TIMEOUT_MS = Finite (of_int 1000)"
    and u: "MAX_TIMEOUT_MS = Finite (of_int 300000)"
    by (simp_all add: DEFAULT_TIMEOUT_MS_def MIN_TIMEOUT_MS_def MAX_TIMEOUT_MS_def)
  from resolveTimeout_cases [of t] consider
      "resolveTimeout t = Finite (of_int 30000)"
    | "resolveTimeout t = Finite (of_int 1000)"
    | "resolveTimeout t = Finite (of_int 300000)"
    | q where "resolveTimeout t = Finite (of_int (clamp_ms (trunc_rat q)))"
    unfolding d l u by blast
  then show ?thesis
  proof cases
    case 4
    then show ?thesis using clamp_ms_range by blast
  qed (rule exI, rule conjI, assumption, simp)+
qed

lemma trunc_1500_7: "trunc_rat (15007 / 10) = 1500"
  by code_simp

text \<open>
  C7: every input resolves to an integer number of milliseconds in [1000, 300000];
  \<open>undefined\<close> gives 30000, -5 gives 1000, 999999 gives 300000 and 1500.7 gives 1500;
  a finite input is truncated toward zero and then clamped to the nearer bound.
\<close>

theorem C7_resolveTimeout_range_and_examples:
  "(\<exists>k. resolveTimeout t = Finite (of_int k) \<and> 1000 \<le> k \<and> k \<le> 300000)
   \<and> resolveTimeout Undefined = Finite 30000
   \<and> resolveTimeout (Num (Finite (- 5))) = Finite 1000
   \<and> resolveTimeout (Num (Finite 999999)) = Finite 300000
   \<and> resolveTimeout (Num (Finite (15007 / 10))) = Finite 1500
   \<and> resolveTimeout (Num (Finite q)) = Finite (of_int (clamp_ms (trunc_rat q)))"
proof -
  have "trunc_rat (- 5) = - 5" and "trunc_rat 999999 = 999999"
    by (simp_all add: trunc_rat_def)
  then have "resolveTimeout (Num (Finite (- 5))) = Finite 1000"
    and "resolveTimeout (Num (Finite 999999)) = Finite 300000"
    and "resolveTimeout (Num (Finite (15007 / 10))) = Finite 1500"
    by (simp_all only: resolveTimeout_finite trunc_1500_7) (simp_all add: clamp_ms_def)
  moreover have "resolveTimeout Undefined = Finite 30000"
    by (simp add: DEFAULT_TIMEOUT_MS_def)
  ultimately show ?thesis
    using resolveTimeout_int [of t] resolveTimeout_finite [of q] by blast
qed

text \<open>
  C3, as stated: every input that is not a finite number resolves to the default.
  It fails at \<open>Infinity\<close>, which passes the NaN guard and is clamped to the maximum.
\<close>

theorem C3_infinite_not_default:
  "\<not> Number_isFinite (Num PosInfinity)
   \<and> resolveTimeout (Num PosInfinity) = Finite 300000
   \<and> resolveTimeout (Num PosInfinity) \<noteq> DEFAULT_TIMEOUT_MS"
  by (simp add: DEFAULT_TIMEOUT_MS_def MIN_TIMEOUT_MS_def MAX_TIMEOUT_MS_def js_gt_def)

text \<open>
  C3, amended: an input that is not a number, or is NaN, resolves to the default of
  30000; an infinite input is clamped instead, \<open>Infinity\<close> to 300000 and
  \<open>-Infinity\<close> to 1000.
\<close>

theorem C3_default_when_absent_or_NaN:
  "((\<forall>n. t \<noteq> Num n) \<or> t = Num NaN \<longrightarrow> resolveTimeout t = Finite 30000)
   \<and> resolveTimeout (Num PosInfinity) = Finite 300000
   \<and> resolveTimeout (Num NegInfinity) = Finite 1000"
proof -
  have "resolveTimeout t = Finite 30000" if "\<forall>n. t \<noteq> Num n"
    using that by (cases t) (simp_all add: DEFAULT_TIMEOUT_MS_def)
  moreover have "resolveTimeout (Num NaN) = Finite 30000"
    by (simp add: DEFAULT_TIMEOUT_MS_def)
  ultimately show ?thesis
    by (auto simp add: MIN_TIMEOUT_MS_def MAX_TIMEOUT_MS_def js_gt_def)
qed

theorem C3_default_when_absent_or_NaN_witness:
  "((\<forall>n. Str (lit ''soon'') \<noteq> Num n) \<or> Str (lit ''soon'') = Num NaN)
   \<and> resolveTimeout (Str (lit ''soon'')) = Finite 30000"
  using C3_default_when_absent_or_NaN [of "Str (lit ''soon'')"] by simp


section \<open>Properties of the response formatter\<close>

subsection \<open>The shape of the table\<close>

lemma table_lines_uncut:
  assumes "length rs \<le> maxRows"
  shows "table_lines row0 rs maxRows =
         [header_line row0, separator_line row0] @ map (data_line row0) rs"
  using assms by (simp add: table_lines_def Let_def header_line_def separator_line_def data_line_def)

lemma table_lines_cut:
  assumes "length rs > maxRows"
  shows "table_lines row0 rs maxRows =
         [header_line row0, separator_line row0] @ map (data_line row0) (take maxRows rs)
         @ [[], more_rows_line (length rs - maxRows)]"
  using assms by (simp add: table_lines_def Let_def header_line_def separator_line_def data_line_def)

lemma buildMarkdownTable_nonempty:
  "rs \<noteq> [] \<Longrightarrow> buildMarkdownTable rs maxRows = js_join [0x0A] (table_lines (hd rs) rs maxRows)"
  by (cases rs) (simp_all add: buildMarkdownTable_def)

lemma count_list_append: "count_list (xs @ ys) c = count_list xs c + count_list ys c"
  by (induction xs) simp_all

lemma count_list_join:
  "count_list (js_join sep ls) c =
     sum_list (map (\<lambda>l. count_list l c) ls) + (length ls - 1) * count_list sep c"
  by (induction sep ls rule: js_join.induct) (simp_all add: count_list_append)

lemma line_count_empty_table: "line_count (buildMarkdownTable [] MAX_TABLE_ROWS) = 1"
  by (simp add: buildMarkdownTable_def line_count_def lit_def)

lemma data_line_example:
  "data_line [(lit ''a'', Num (Finite 1))] [(lit ''a'', Num (Finite 1))] = lit ''| 1 |''"
  by (simp add: data_line_def table_line_def Object_keys_def js_get_def truncateCell_def
      MAX_CELL_WIDTH_def digit_char_def lit_def)

lemma header_line_example: "count_list (header_line [(lit ''a'', Num (Finite 1))]) 0x0A = 0"
  by (simp add: header_line_def table_line_def Object_keys_def lit_def)

lemma separator_line_example: "count_list (separator_line [(lit ''a'', Num (Finite 1))]) 0x0A = 0"
  by (simp add: separator_line_def table_line_def Object_keys_def lit_def)

lemma more_rows_line_example: "count_list (more_rows_line (Suc 0)) 0x0A = 0"
  by (simp add: more_rows_line_def lit_def digit_char_def count_list_append)

lemma line_count_201_rows:
  "line_count (buildMarkdownTable (replicate 201 [(lit ''a'', Num (Finite 1))]) MAX_TABLE_ROWS) = 204"
proof -
  let ?r = "[(lit ''a'', Num (Finite 1))]"
  have dl: "count_list (data_line ?r ?r) 0x0A = 0"
    by (simp add: data_line_example) (simp add: lit_def)
  have "buildMarkdownTable (replicate 201 ?r) MAX_TABLE_ROWS
      = js_join [0x0A] (table_lines ?r (replicate 201 ?r) 200)"
    by (simp add: buildMarkdownTable_nonempty MAX_TABLE_ROWS_def)
  also have "table_lines ?r (replicate 201 ?r) 200 =
      [header_line ?r, separator_line ?r] @ replicate 200 (data_line ?r ?r) @ [[], more_rows_line 1]"
    by (simp add: table_lines_cut)
  finally show ?thesis
    by (simp add: line_count_def count_list_join header_line_example separator_line_example
        more_rows_line_example dl sum_list_replicate)
qed

text \<open>When no line holds a line feed, the lines of the table are the entries joined.\<close>

lemma line_count_join:
  assumes "ls \<noteq> []" and "\<forall>l \<in> set ls. 0x0A \<notin> set l"
  shows "line_count (js_join [0x0A] ls) = length ls"
proof -
  have "map (\<lambda>l. count_list l 0x0A) ls = map (\<lambda>l. 0) ls"
    using assms(2) by (intro map_cong refl) (simp add: count_list_0_iff)
  then have "sum_list (map (\<lambda>l. count_list l 0x0A) ls) = 0"
    by simp
  with assms(1) show ?thesis
    by (cases ls) (simp_all add: line_count_def count_list_join)
qed

lemma line_count_table:
  assumes "\<forall>l \<in> set (table_lines row0 (row0 # rest) MAX_TABLE_ROWS). 0x0A \<notin> set l"
  shows "line_count (buildMarkdownTable (row0 # rest) MAX_TABLE_ROWS) =
         (if length (row0 # rest) \<le> 200 then length (row0 # rest) + 2 else 204)"
proof -
  let ?ls = "table_lines row0 (row0 # rest) MAX_TABLE_ROWS"
  have n: "?ls \<noteq> []"
    by (simp add: table_lines_def Let_def)
  have "length ?ls = (if length (row0 # rest) \<le> 200 then length (row0 # rest) + 2 else 204)"
    by (simp add: table_lines_def Let_def MAX_TABLE_ROWS_def)
  then show ?thesis
    using line_count_join [OF n assms] by (simp add: buildMarkdownTable_def)
qed

text \<open>
  C4, as stated: N rows give N + 2 lines up to the cap and 200 + 2 + 1 lines beyond it.
  No rows give the single placeholder line, and 201 rows give 204 lines, an empty line
  standing before the summary.
\<close>

theorem C4_line_counts_differ:
  "line_count (buildMarkdownTable [] MAX_TABLE_ROWS) = 1
   \<and> line_count (buildMarkdownTable [] MAX_TABLE_ROWS) \<noteq> 0 + 2
   \<and> line_count (buildMarkdownTable (replicate 201 [(lit ''a'', Num (Finite 1))]) MAX_TABLE_ROWS)
       = 204
   \<and> line_count (buildMarkdownTable (replicate 201 [(lit ''a'', Num (Finite 1))]) MAX_TABLE_ROWS)
       \<noteq> 200 + 2 + 1"
  by (simp only: line_count_empty_table line_count_201_rows) simp

text \<open>
  C4, amended: no rows render as the placeholder alone; from 1 to 200 rows, as the header
  line, the separator line and one data line for each row, joined by line feeds; more than
  200 rows, as the header, the separator, the data lines of the first 200 rows, an empty
  line and a summary line that gives the number of rows left out.
\<close>

theorem C4_table_shape:
  "buildMarkdownTable [] MAX_TABLE_ROWS = lit ''_No rows returned._''
   \<and> (length (row0 # rest) \<le> 200 \<longrightarrow>
        buildMarkdownTable (row0 # rest) MAX_TABLE_ROWS =
          js_join [0x0A] ([header_line row0, separator_line row0]
                          @ map (data_line row0) (row0 # rest))
        \<and> length (map (data_line row0) (row0 # rest)) = length (row0 # rest))
   \<and> (length (row0 # rest) > 200 \<longrightarrow>
        buildMarkdownTable (row0 # rest) MAX_TABLE_ROWS =
          js_join [0x0A] ([header_line row0, separator_line row0]
                          @ map (data_line row0) (take 200 (row0 # rest))
                          @ [[], more_rows_line (length (row0 # rest) - 200)])
        \<and> length (map (data_line row0) (take 200 (row0 # rest))) = 200)"
proof -
  have "buildMarkdownTable [] MAX_TABLE_ROWS = lit ''_No rows returned._''"
    by (simp add: buildMarkdownTable_def)
  moreover have "buildMarkdownTable (row0 # rest) MAX_TABLE_ROWS =
      js_join [0x0A] (table_lines row0 (row0 # rest) 200)"
    by (simp add: buildMarkdownTable_def MAX_TABLE_ROWS_def)
  ultimately show ?thesis
    using table_lines_uncut [of "row0 # rest" 200 row0] table_lines_cut [of 200 "row0 # rest" row0]
    by (simp del: list.map)
qed


theorem C4_table_shape_witness:
  "length ([(lit ''a'', Num (Finite 1))] # [[(lit ''a'', Null)]]) \<le> 200
   \<and> buildMarkdownTable ([(lit ''a'', Num (Finite 1))] # [[(lit ''a'', Null)]]) MAX_TABLE_ROWS
     = lit ''| a |'' @ [0x0A] @ lit ''| --- |'' @ [0x0A] @ lit ''| 1 |'' @ [0x0A] @ lit ''|  |''
   \<and> length ([(lit ''a'', Num (Finite 1))] # replicate 200 [(lit ''a'', Num (Finite 1))]) > 200
   \<and> buildMarkdownTable ([(lit ''a'', Num (Finite 1))] # replicate 200 [(lit ''a'', Num (Finite 1))])
        MAX_TABLE_ROWS
     = js_join [0x0A] ([lit ''| a |'', lit ''| --- |''] @ replicate 200 (lit ''| 1 |'')
                       @ [[], lit ''_'' @ [0x2026]
                              @ lit '' and 1 more rows (see full results file)_''])"
proof -
  have m: "more_rows_line 1
      = lit ''_'' @ [0x2026] @ lit '' and 1 more rows (see full results file)_''"
    by (simp add: more_rows_line_def lit_def digit_char_def)
  let ?r = "[(lit ''a'', Num (Finite 1))]"
  have tk: "take 200 (?r # replicate 200 ?r) = replicate 200 ?r"
    using take_replicate [of 200 201 ?r] by (simp add: numeral_eq_Suc)
  have h: "header_line ?r = lit ''| a |''" and s: "separator_line ?r = lit ''| --- |''"
    by (simp_all add: header_line_def separator_line_def table_line_def Object_keys_def lit_def)
  have "buildMarkdownTable (?r # replicate 200 ?r) MAX_TABLE_ROWS
     = js_join [0x0A] ([lit ''| a |'', lit ''| --- |''] @ replicate 200 (lit ''| 1 |'')
                       @ [[], more_rows_line 1])"
    using C4_table_shape [of ?r "replicate 200 ?r"]
    by (simp only: tk h s map_replicate data_line_example length_Cons length_replicate) simp
  then have "buildMarkdownTable (?r # replicate 200 ?r) MAX_TABLE_ROWS
     = js_join [0x0A] ([lit ''| a |'', lit ''| --- |''] @ replicate 200 (lit ''| 1 |'')
                       @ [[], lit ''_'' @ [0x2026]
                              @ lit '' and 1 more rows (see full results file)_''])"
    by (simp only: m)
  moreover have "buildMarkdownTable (?r # [[(lit ''a'', Null)]]) MAX_TABLE_ROWS
     = lit ''| a |'' @ [0x0A] @ lit ''| --- |'' @ [0x0A] @ lit ''| 1 |'' @ [0x0A] @ lit ''|  |''"
    using C4_table_shape [of ?r "[[(lit ''a'', Null)]]"]
    by (simp add: header_line_def separator_line_def data_line_def table_line_def Object_keys_def
      js_get_def truncateCell_def MAX_CELL_WIDTH_def digit_char_def lit_def)
  ultimately show ?thesis by simp
qed


subsection \<open>The two variants\<close>

lemma truncateCell_short:
  "length (cellToString v) \<le> 80 \<Longrightarrow> truncateCell v = cellToString v"
  by (simp add: truncateCell_def cellToString_def MAX_CELL_WIDTH_def Let_def)

lemma truncateCell_long:
  "length (cellToString v) > 80 \<Longrightarrow> length (truncateCell v) = 80"
  by (simp add: truncateCell_def cellToString_def MAX_CELL_WIDTH_def Let_def)

lemma tables_agree:
  assumes "length rs \<le> 200"
    and "\<forall>v \<in> set (rendered_cells rs). length (cellToString v) \<le> 80"
  shows "buildMarkdownTable rs MAX_TABLE_ROWS = buildMarkdownTable_uncapped rs"
proof (cases rs)
  case Nil
  then show ?thesis by (simp add: buildMarkdownTable_def buildMarkdownTable_uncapped_def)
next
  case (Cons row0 rest)
  have cells: "truncateCell (js_get row col) = cellToString (js_get row col)"
    if "row \<in> set rs" "col \<in> set (Object_keys row0)" for row col
  proof -
    from that have "js_get row col \<in> set (rendered_cells rs)"
      by (auto simp add: rendered_cells_def Cons)
    with assms(2) show ?thesis by (simp add: truncateCell_short)
  qed
  have body: "map (\<lambda>row. table_line (map (\<lambda>col. truncateCell (js_get row col)) (Object_keys row0))) rs
      = map (\<lambda>row. table_line (map (\<lambda>col. cellToString (js_get row col)) (Object_keys row0))) rs"
    using cells by (intro map_cong refl arg_cong [where f = table_line]) simp
  have "buildMarkdownTable rs MAX_TABLE_ROWS = js_join [0x0A] (table_lines row0 rs 200)"
    by (simp add: buildMarkdownTable_def MAX_TABLE_ROWS_def Cons)
  also have "table_lines row0 rs 200 =
      [table_line (Object_keys row0), table_line (map (\<lambda>col. lit ''---'') (Object_keys row0))]
      @ map (\<lambda>row. table_line (map (\<lambda>col. cellToString (js_get row col)) (Object_keys row0))) rs"
    using assms(1) body by (simp add: table_lines_def Let_def)
  also have "js_join [0x0A] \<dots> = buildMarkdownTable_uncapped rs"
    by (simp add: buildMarkdownTable_uncapped_def Let_def Cons)
  finally show ?thesis .
qed

lemma format_same_table:
  assumes "buildMarkdownTable (rows options) MAX_TABLE_ROWS = buildMarkdownTable_uncapped (rows options)"
  shows "formatToolResponse w options = formatToolResponse_uncapped w options"
  using assms by (simp add: formatToolResponse_def formatToolResponse_uncapped_def Let_def split: option.split)

lemma format_same_json:
  assumes "responseFormat options = Some Json"
  shows "formatToolResponse w options = formatToolResponse_uncapped w options"
  using assms by (simp add: formatToolResponse_def formatToolResponse_uncapped_def Let_def split: option.split)

text \<open>
  C5: the two formatters return the same result for every json-mode input, and for every
  input of at most 200 rows whose rendered cells are at most 80 code units long; where
  they differ, the mode is the table and the cap or the truncation applies.
\<close>

theorem C5_variants_agree:
  "(responseFormat options = Some Json \<longrightarrow>
      formatToolResponse w options = formatToolResponse_uncapped w options)
   \<and> (length (rows options) \<le> 200
        \<and> (\<forall>v \<in> set (rendered_cells (rows options)). length (cellToString v) \<le> 80) \<longrightarrow>
      formatToolResponse w options = formatToolResponse_uncapped w options)
   \<and> (formatToolResponse w options \<noteq> formatToolResponse_uncapped w options \<longrightarrow>
      responseFormat options \<noteq> Some Json
      \<and> (length (rows options) > 200
          \<or> (\<exists>v \<in> set (rendered_cells (rows options)). length (cellToString v) > 80)))"
proof -
  have a: "formatToolResponse w options = formatToolResponse_uncapped w options"
    if "responseFormat options = Some Json"
    using that by (rule format_same_json)
  have b: "formatToolResponse w options = formatToolResponse_uncapped w options"
    if "length (rows options) \<le> 200"
      "\<forall>v \<in> set (rendered_cells (rows options)). length (cellToString v) \<le> 80"
    using that by (intro format_same_table tables_agree)
  from a b show ?thesis by (metis linorder_not_le)
qed

theorem C5_variants_agree_witness:
  "length (rows small_options) \<le> 200
   \<and> list_all (\<lambda>v. length (cellToString v) \<le> 80) (rendered_cells (rows small_options))
   \<and> formatToolResponse quiet_world small_options
       = formatToolResponse_uncapped quiet_world small_options
   \<and> responseFormat (small_options\<lparr>responseFormat := Some Json\<rparr>) = Some Json
   \<and> formatToolResponse quiet_world (small_options\<lparr>responseFormat := Some Json\<rparr>)
       = formatToolResponse_uncapped quiet_world (small_options\<lparr>responseFormat := Some Json\<rparr>)"
  using C5_variants_agree [of small_options quiet_world]
    C5_variants_agree [of "small_options\<lparr>responseFormat := Some Json\<rparr>" quiet_world]
  by (simp add: small_options_def rendered_cells_def Object_keys_def js_get_def cellToString_def
      digit_char_def)

subsection \<open>Inline or spooled\<close>

lemma quote_units_plain:
  assumes "\<forall>c \<in> set s. \<not> is_lead c \<and> \<not> is_trail c \<and> quote_unit c = [c]"
  shows "quote_units s = s"
  using assms by (induction s rule: quote_units.induct) simp_all

lemma utf8_length_Cons:
  "\<not> is_lead c \<Longrightarrow> utf8_length (c # s) = utf8_unit c + utf8_length s"
  by (cases s) simp_all

lemma utf8_length_replicate:
  "\<not> is_lead c \<Longrightarrow> utf8_length (replicate n c @ s) = n * utf8_unit c + utf8_length s"
  by (induction n) (simp_all add: utf8_length_Cons)

lemma e_acute_plain: "\<not> is_lead 0xE9 \<and> \<not> is_trail 0xE9 \<and> quote_unit 0xE9 = [0xE9]"
  by (simp add: is_lead_def is_trail_def quote_unit_def)

lemma stringify_accented:
  "JSON_stringify (Str accented_text) = Some ([0x22] @ accented_text @ [0x22])"
  by (simp add: JSON_stringify_def QuoteJSONString_def accented_text_def
      quote_units_plain e_acute_plain)

lemma length_accented: "length ([0x22] @ accented_text @ [0x22]) = 25602"
  by (simp add: accented_text_def)

lemma utf8_accented: "utf8_length ([0x22] @ accented_text @ [0x22]) = 51202"
proof -
  have "utf8_length ([0x22] @ accented_text @ [0x22])
      = utf8_unit 0x22 + utf8_length (replicate 25600 0xE9 @ [0x22])"
    by (simp add: utf8_length_Cons is_lead_def accented_text_def)
  also have "\<dots> = 51202"
    by (simp add: utf8_length_replicate e_acute_plain utf8_unit_def)
  finally show ?thesis .
qed

lemma formatToolResponse_json_inline:
  assumes "responseFormat options = Some Json"
    and "JSON_stringify (resultPayload_of options) = Some serialized"
    and "length serialized \<le> 51200"
  shows "formatToolResponse w options =
         Inr (\<lparr>content = [json_inline_text (buildMetadataHeader (metadata options)) serialized],
               isError = False\<rparr>, cleanupOldFiles w)"
  using assms by (simp add: formatToolResponse_def Let_def MAX_RESULT_BYTES_def)

lemma formatToolResponse_json_spool:
  assumes "responseFormat options = Some Json"
    and "JSON_stringify (resultPayload_of options) = Some serialized"
    and "length serialized > 51200"
    and "writeResultFile (cleanupOldFiles w) (toolName options) (resultPayload_of options)
         = Inr (filepath, w')"
  shows "formatToolResponse w options =
         Inr (\<lparr>content = [json_overflow_text (buildMetadataHeader (metadata options))
                              (length serialized) filepath],
               isError = False\<rparr>, w')"
  using assms by (simp add: formatToolResponse_def Let_def MAX_RESULT_BYTES_def)

lemma formatToolResponse_table_inline:
  assumes "responseFormat options \<noteq> Some Json"
    and "JSON_stringify (resultPayload_of options) = Some serialized"
    and "length serialized \<le> 51200"
  shows "formatToolResponse w options =
         Inr (\<lparr>content = [table_inline_text (buildMetadataHeader (metadata options))
                              (buildMarkdownTable (rows options) MAX_TABLE_ROWS)],
               isError = False\<rparr>, cleanupOldFiles w)"
  using assms
  by (cases "responseFormat options")
     (simp_all add: formatToolResponse_def Let_def MAX_RESULT_BYTES_def)

lemma formatToolResponse_table_spool:
  assumes "responseFormat options \<noteq> Some Json"
    and "JSON_stringify (resultPayload_of options) = Some serialized"
    and "length serialized > 51200"
    and "writeResultFile (cleanupOldFiles w) (toolName options) (resultPayload_of options)
         = Inr (filepath, w')"
  shows "formatToolResponse w options =
         Inr (\<lparr>content = [table_overflow_text (buildMetadataHeader (metadata options))
                              (buildMarkdownTable (rows options) MAX_TABLE_ROWS)
                              (length (rows options)) (length serialized) filepath],
               isError = False\<rparr>, w')"
  using assms
  by (cases "responseFormat options")
     (simp_all add: formatToolResponse_def Let_def MAX_RESULT_BYTES_def)

lemma formatToolResponse_isError:
  "formatToolResponse w options = Inr (response, w') \<Longrightarrow> \<not> isError response"
  by (auto simp add: formatToolResponse_def Let_def
      split: option.splits sum.splits if_splits prod.splits)

text \<open>
  C1: a payload of 25600 accented letters serializes to 25602 code units, which are 51202
  bytes of UTF-8, more than the budget of 51200; the formatter compares the code units
  and answers inline, writing no file.
\<close>

theorem C1_accented_payload_inlined:
  "JSON_stringify (resultPayload_of accented_options) = Some ([0x22] @ accented_text @ [0x22])
   \<and> length ([0x22] @ accented_text @ [0x22]) = 25602
   \<and> utf8_length ([0x22] @ accented_text @ [0x22]) = 51202
   \<and> MAX_RESULT_BYTES = 51200
   \<and> formatToolResponse w accented_options =
       Inr (\<lparr>content = [json_inline_text [] ([0x22] @ accented_text @ [0x22])],
             isError = False\<rparr>, cleanupOldFiles w)"
proof -
  have p: "resultPayload_of accented_options = Str accented_text"
    by (simp add: resultPayload_of_def accented_options_def)
  have f: "formatToolResponse w accented_options =
       Inr (\<lparr>content = [json_inline_text [] ([0x22] @ accented_text @ [0x22])],
             isError = False\<rparr>, cleanupOldFiles w)"
    using formatToolResponse_json_inline [of accented_options "[0x22] @ accented_text @ [0x22]" w]
      length_accented
    by (simp add: p stringify_accented) (simp add: accented_options_def buildMetadataHeader_def)
  show ?thesis
    using f length_accented utf8_accented
    by (simp only: p stringify_accented) (simp add: MAX_RESULT_BYTES_def)
qed


section \<open>Properties of the handlers\<close>

subsection \<open>PostgreSQL\<close>

lemma select_input_parsed:
  "sqlQueryInputSchema_parse select_input =
     Inr \<lparr>arg_sql = lit ''SELECT 1'', arg_timeoutMs = Undefined, arg_responseFormat = Table\<rparr>"
  by (simp add: sqlQueryInputSchema_parse_def select_input_def js_get_def lit_def)

lemma set_statement_default: "set_statement (Finite 30000) = lit ''SET statement_timeout = 30000''"
  by (simp add: set_statement_def lit_def digit_char_def)

text \<open>
  C6: when the pool cannot hand out a client, the error of \<open>pool.connect()\<close> leaves the
  handler of \<open>sql_query\<close>: no response is returned.
\<close>

theorem C6_connect_failure_escapes:
  "sql_query_handler unreachable_db quiet_world select_input =
     ([Connect], quiet_world, Inl (new_Error (lit ''connect ECONNREFUSED 127.0.0.1:5432'')))"
  by (simp add: sql_query_handler_def select_input_parsed unreachable_db_def)

lemma sql_query_try_response:
  "\<exists>events w' response. sql_query_try db w parsed timeout = (events, w', response)"
  by (cases "sql_query_try db w parsed timeout") simp

lemma sql_query_try_events:
  "fst (sql_query_try db w parsed timeout) =
     Query (set_statement timeout)
     # (if set_timeout_outcome db = None then [Query (arg_sql parsed)] else [])"
  by (simp add: sql_query_try_def split: option.split sum.split prod.split)

lemma sql_query_try_failure:
  assumes "set_timeout_outcome db = Some error
           \<or> set_timeout_outcome db = None \<and> query_outcome db = Inl error"
  shows "snd (snd (sql_query_try db w parsed timeout)) = formatErrorResponse (lit ''PostgreSQL'') error"
  using assms by (auto simp add: sql_query_try_def)

lemma formatErrorResponse_text:
  "formatErrorResponse backendName error =
     \<lparr>content = [backendName @ lit '' error: '' @ error_text error], isError = True\<rparr>"
  by (simp add: formatErrorResponse_def error_text_def)

lemma sql_query_handler_returns:
  assumes "sqlQueryInputSchema_parse input = Inr parsed"
    and "connect_outcome db = None"
  shows "\<exists>events w' response. sql_query_handler db w input = (events, w', Inr response)"
  using assms sql_query_try_response [of db w parsed "resolveTimeout (arg_timeoutMs parsed)"]
  by (auto simp add: sql_query_handler_def Let_def)

lemma sql_query_handler_failure:
  assumes "sqlQueryInputSchema_parse input = Inr parsed"
    and "connect_outcome db = None"
    and "set_timeout_outcome db = Some error
         \<or> set_timeout_outcome db = None \<and> query_outcome db = Inl error"
  shows "snd (snd (sql_query_handler db w input)) =
         Inr \<lparr>content = [lit ''PostgreSQL'' @ lit '' error: '' @ error_text error],
              isError = True\<rparr>"
proof -
  let ?t = "resolveTimeout (arg_timeoutMs parsed)"
  obtain events w' response where t: "sql_query_try db w parsed ?t = (events, w', response)"
    using sql_query_try_response by blast
  then have "response = formatErrorResponse (lit ''PostgreSQL'') error"
    using sql_query_try_failure [OF assms(3), of w parsed ?t] by simp
  with t assms(1,2) show ?thesis
    by (simp add: sql_query_handler_def Let_def formatErrorResponse_text)
qed

lemma sql_query_handler_connect_failure:
  assumes "sqlQueryInputSchema_parse input = Inr parsed"
    and "connect_outcome db = Some error"
  shows "sql_query_handler db w input = ([Connect], w, Inl error)"
  using assms by (simp add: sql_query_handler_def)


lemma timed_input_parsed:
  "sqlQueryInputSchema_parse timed_input =
     Inr \<lparr>arg_sql = lit ''SELECT 1'', arg_timeoutMs = Num (Finite 2000),
          arg_responseFormat = Table\<rparr>"
  by (simp add: sqlQueryInputSchema_parse_def timed_input_def js_get_def lit_def)

lemma long_input_parsed:
  "sqlQueryInputSchema_parse long_input =
     Inr \<lparr>arg_sql = lit ''SELECT 1'', arg_timeoutMs = Num (Finite 999999),
          arg_responseFormat = Table\<rparr>"
  by (simp add: sqlQueryInputSchema_parse_def long_input_def js_get_def lit_def)

lemma empty_input_rejected:
  "sqlQueryInputSchema_parse [] = Inl (ZodError (lit ''SQL query must be provided''))"
  by (simp add: sqlQueryInputSchema_parse_def js_get_def)

lemma timeout_2000: "Number_toString (resolveTimeout (Num (Finite 2000))) = lit ''2000''"
  by (simp add: resolveTimeout_finite trunc_rat_def clamp_ms_def lit_def digit_char_def
      del: resolveTimeout.simps)

lemma timeout_999999: "Number_toString (resolveTimeout (Num (Finite 999999))) = lit ''300000''"
  by (simp add: resolveTimeout_finite trunc_rat_def clamp_ms_def lit_def digit_char_def
      del: resolveTimeout.simps)

lemma timeout_default: "Number_toString DEFAULT_TIMEOUT_MS = lit ''30000''"
  by (simp add: DEFAULT_TIMEOUT_MS_def lit_def digit_char_def)

lemma sql_query_try_set_failure:
  assumes "set_timeout_outcome db = Some error"
  shows "sql_query_try db w parsed timeout =
         ([Query (set_statement timeout)], w, formatErrorResponse (lit ''PostgreSQL'') error)"
  using assms by (simp add: sql_query_try_def)

text \<open>
  C8, as stated: every invocation makes the five calls, and reset and release end every
  exit path.  When the pool hands out no client the only call is the attempt to connect;
  when the timeout statement fails the query is never sent.
\<close>

theorem C8_steps_left_out:
  "fst (sql_query_handler unreachable_db quiet_world select_input) = [Connect]
   \<and> fst (sql_query_handler set_failing_db quiet_world select_input) =
       [Connect, Query (lit ''SET statement_timeout = 30000''),
        Query (lit ''SET statement_timeout = DEFAULT''), Release]
   \<and> Query (lit ''SELECT 1'')
       \<notin> set (fst (sql_query_handler set_failing_db quiet_world select_input))"
proof -
  have a: "fst (sql_query_handler unreachable_db quiet_world select_input) = [Connect]"
    by (simp add: sql_query_handler_def select_input_parsed unreachable_db_def)
  have b: "fst (sql_query_handler set_failing_db quiet_world select_input) =
       [Connect, Query (lit ''SET statement_timeout = 30000''),
        Query (lit ''SET statement_timeout = DEFAULT''), Release]"
    by (simp add: sql_query_handler_def select_input_parsed sql_query_try_set_failure
        set_failing_db_def set_statement_def timeout_default reset_statement_def Let_def)
       (simp add: lit_def)
  have "Query (lit ''SELECT 1'')
       \<notin> set [Connect, Query (lit ''SET statement_timeout = 30000''),
        Query (lit ''SET statement_timeout = DEFAULT''), Release]"
    by (simp add: lit_def)
  with a b show ?thesis by simp
qed

text \<open>
  C8, amended: when the schema accepts the input and the pool hands out a client, the
  handler of \<open>sql_query\<close> connects, sets the statement timeout to the resolved value,
  sends the query, resets the timeout and releases the client, in that order, whatever
  the outcome of the query, of the formatting and of the reset; if setting the timeout
  fails, the query is not sent and the reset and the release follow all the same.  When
  no client is handed out the only call is the attempt to connect, and an input that the
  schema rejects causes no call.
\<close>

theorem C8_sql_query_steps:
  "(sqlQueryInputSchema_parse input = Inr parsed \<and> connect_outcome db = None
      \<and> set_timeout_outcome db = None \<longrightarrow>
      (\<exists>w' response.
         sql_query_handler db w input =
           ([Connect,
             Query (lit ''SET statement_timeout = ''
                    @ Number_toString (resolveTimeout (arg_timeoutMs parsed))),
             Query (arg_sql parsed),
             Query (lit ''SET statement_timeout = DEFAULT''),
             Release], w', Inr response)))
   \<and> (sqlQueryInputSchema_parse input = Inr parsed \<and> connect_outcome db = None
      \<and> set_timeout_outcome db = Some error \<longrightarrow>
      sql_query_handler db w input =
        ([Connect,
          Query (lit ''SET statement_timeout = ''
                 @ Number_toString (resolveTimeout (arg_timeoutMs parsed))),
          Query (lit ''SET statement_timeout = DEFAULT''),
          Release], w,
         Inr \<lparr>content = [lit ''PostgreSQL error: '' @ error_text error], isError = True\<rparr>))
   \<and> (sqlQueryInputSchema_parse input = Inr parsed \<and> connect_outcome db = Some error \<longrightarrow>
      fst (sql_query_handler db w input) = [Connect])
   \<and> (sqlQueryInputSchema_parse input = Inl error \<longrightarrow>
      fst (sql_query_handler db w input) = [])"
proof -
  let ?t = "resolveTimeout (arg_timeoutMs parsed)"
  have pg: "lit ''PostgreSQL'' @ lit '' error: '' @ m = lit ''PostgreSQL error: '' @ m" for m
    by (simp add: lit_def)
  have a: "\<exists>w' response.
         sql_query_handler db w input =
           ([Connect, Query (lit ''SET statement_timeout = '' @ Number_toString ?t),
             Query (arg_sql parsed), Query (lit ''SET statement_timeout = DEFAULT''),
             Release], w', Inr response)"
    if "sqlQueryInputSchema_parse input = Inr parsed" "connect_outcome db = None"
      "set_timeout_outcome db = None"
  proof -
    obtain events w' response where t: "sql_query_try db w parsed ?t = (events, w', response)"
      using sql_query_try_response by blast
    then have "events = [Query (set_statement ?t), Query (arg_sql parsed)]"
      using sql_query_try_events [of db w parsed ?t] that(3) by simp
    with t that show ?thesis
      by (simp add: sql_query_handler_def Let_def set_statement_def reset_statement_def)
  qed
  have b: "sql_query_handler db w input =
        ([Connect, Query (lit ''SET statement_timeout = '' @ Number_toString ?t),
          Query (lit ''SET statement_timeout = DEFAULT''), Release], w,
         Inr \<lparr>content = [lit ''PostgreSQL error: '' @ error_text error], isError = True\<rparr>)"
    if "sqlQueryInputSchema_parse input = Inr parsed" "connect_outcome db = None"
      "set_timeout_outcome db = Some error"
    using that
    by (simp add: sql_query_handler_def Let_def sql_query_try_set_failure set_statement_def
        reset_statement_def formatErrorResponse_text pg)
  have c: "fst (sql_query_handler db w input) = [Connect]"
    if "sqlQueryInputSchema_parse input = Inr parsed" "connect_outcome db = Some error"
    using that by (simp add: sql_query_handler_def)
  have d: "fst (sql_query_handler db w input) = []"
    if "sqlQueryInputSchema_parse input = Inl error"
    using that by (simp add: sql_query_handler_def)
  from a b c d show ?thesis by blast
qed

lemma failing_db_outcomes:
  "connect_outcome failing_db = None" "set_timeout_outcome failing_db = None"
  by (simp_all add: failing_db_def)

lemma answering_db_outcomes:
  "connect_outcome answering_db = None" "set_timeout_outcome answering_db = None"
  by (simp_all add: answering_db_def)

lemma set_failing_db_outcomes:
  "connect_outcome set_failing_db = None"
  "set_timeout_outcome set_failing_db = Some (new_Error (lit ''Connection terminated unexpectedly''))"
  by (simp_all add: set_failing_db_def)

lemma unreachable_db_outcome:
  "connect_outcome unreachable_db = Some (new_Error (lit ''connect ECONNREFUSED 127.0.0.1:5432''))"
  by (simp add: unreachable_db_def)

lemma set_statement_texts:
  "lit ''SET statement_timeout = '' @ lit ''2000'' = lit ''SET statement_timeout = 2000''"
  "lit ''SET statement_timeout = '' @ lit ''300000'' = lit ''SET statement_timeout = 300000''"
  "lit ''SET statement_timeout = '' @ lit ''30000'' = lit ''SET statement_timeout = 30000''"
  "lit ''PostgreSQL error: '' @ lit ''Connection terminated unexpectedly''
   = lit ''PostgreSQL error: Connection terminated unexpectedly''"
  by (simp_all add: lit_def)

theorem C8_sql_query_steps_witness:
  "fst (sql_query_handler failing_db quiet_world timed_input) =
     [Connect, Query (lit ''SET statement_timeout = 2000''), Query (lit ''SELECT 1''),
      Query (lit ''SET statement_timeout = DEFAULT''), Release]
   \<and> fst (sql_query_handler answering_db quiet_world long_input) =
     [Connect, Query (lit ''SET statement_timeout = 300000''), Query (lit ''SELECT 1''),
      Query (lit ''SET statement_timeout = DEFAULT''), Release]
   \<and> sql_query_handler set_failing_db quiet_world select_input =
     ([Connect, Query (lit ''SET statement_timeout = 30000''),
       Query (lit ''SET statement_timeout = DEFAULT''), Release], quiet_world,
      Inr \<lparr>content = [lit ''PostgreSQL error: Connection terminated unexpectedly''],
           isError = True\<rparr>)
   \<and> fst (sql_query_handler unreachable_db quiet_world select_input) = [Connect]
   \<and> fst (sql_query_handler failing_db quiet_world []) = []"
proof -
  have "\<exists>w' response. sql_query_handler failing_db quiet_world timed_input =
     ([Connect, Query (lit ''SET statement_timeout = 2000''), Query (lit ''SELECT 1''),
       Query (lit ''SET statement_timeout = DEFAULT''), Release], w', Inr response)"
    using C8_sql_query_steps [where input = timed_input and db = failing_db and w = quiet_world
        and parsed = "\<lparr>arg_sql = lit ''SELECT 1'', arg_timeoutMs = Num (Finite 2000),
                        arg_responseFormat = Table\<rparr>"]
    by (simp add: timed_input_parsed failing_db_outcomes timeout_2000 set_statement_texts
        del: resolveTimeout.simps)
  then have 1: "fst (sql_query_handler failing_db quiet_world timed_input) =
     [Connect, Query (lit ''SET statement_timeout = 2000''), Query (lit ''SELECT 1''),
      Query (lit ''SET statement_timeout = DEFAULT''), Release]"
    by auto
  have "\<exists>w' response. sql_query_handler answering_db quiet_world long_input =
     ([Connect, Query (lit ''SET statement_timeout = 300000''), Query (lit ''SELECT 1''),
       Query (lit ''SET statement_timeout = DEFAULT''), Release], w', Inr response)"
    using C8_sql_query_steps [where input = long_input and db = answering_db and w = quiet_world
        and parsed = "\<lparr>arg_sql = lit ''SELECT 1'', arg_timeoutMs = Num (Finite 999999),
                        arg_responseFormat = Table\<rparr>"]
    by (simp add: long_input_parsed answering_db_outcomes timeout_999999 set_statement_texts
        del: resolveTimeout.simps)
  then have 2: "fst (sql_query_handler answering_db quiet_world long_input) =
     [Connect, Query (lit ''SET statement_timeout = 300000''), Query (lit ''SELECT 1''),
      Query (lit ''SET statement_timeout = DEFAULT''), Release]"
    by auto
  have 3: "sql_query_handler set_failing_db quiet_world select_input =
     ([Connect, Query (lit ''SET statement_timeout = 30000''),
       Query (lit ''SET statement_timeout = DEFAULT''), Release], quiet_world,
      Inr \<lparr>content = [lit ''PostgreSQL error: Connection terminated unexpectedly''],
           isError = True\<rparr>)"
    using C8_sql_query_steps [where input = select_input and db = set_failing_db
        and w = quiet_world
        and error = "new_Error (lit ''Connection terminated unexpectedly'')"
        and parsed = "\<lparr>arg_sql = lit ''SELECT 1'', arg_timeoutMs = Undefined,
                        arg_responseFormat = Table\<rparr>"]
    by (simp add: select_input_parsed set_failing_db_outcomes timeout_default
        set_statement_texts error_text_def new_Error_def)
  have 4: "fst (sql_query_handler unreachable_db quiet_world select_input) = [Connect]"
    using C8_sql_query_steps [where input = select_input and db = unreachable_db
        and w = quiet_world
        and error = "new_Error (lit ''connect ECONNREFUSED 127.0.0.1:5432'')"
        and parsed = "\<lparr>arg_sql = lit ''SELECT 1'', arg_timeoutMs = Undefined,
                        arg_responseFormat = Table\<rparr>"]
    by (simp add: select_input_parsed unreachable_db_outcome)
  have 5: "fst (sql_query_handler failing_db quiet_world []) = []"
    using C8_sql_query_steps [where input = "[]" and db = failing_db and w = quiet_world
        and error = "ZodError (lit ''SQL query must be provided'')"]
    by (simp add: empty_input_rejected)
  from 1 2 3 4 5 show ?thesis by blast
qed

subsection \<open>GraphQL\<close>

lemma users_input_parsed:
  "graphqlQueryInputSchema_parse users_input =
     Inr \<lparr>arg_query = lit ''query { users { id } }'', arg_operationName = Undefined,
          arg_variables = Undefined, arg_gql_timeoutMs = Undefined\<rparr>"
  by (simp add: graphqlQueryInputSchema_parse_def users_input_def js_get_def lit_def)

lemma graphql_query_try_aborted:
  assumes "fetched = Rejected error
           \<or> (\<exists>response. fetched = Fulfilled response \<and> response_text response = Rejected error)"
  shows "graphql_query_try fetched timeout = Inl error"
  using assms by (auto simp add: graphql_query_try_def)

lemma lit_append: "lit (a @ b) = lit a @ lit b"
  by (simp add: lit_def)

lemma aborted_text:
  "lit ''GraphQL'' @ lit '' error: '' @ lit ''Request aborted after '' @ n @ lit ''ms''
   = lit ''GraphQL error: Request aborted after '' @ n @ lit ''ms''"
  by (simp add: lit_def)

lemma graphql_query_handler_returns:
  assumes "graphqlQueryInputSchema_parse input = Inr parsed"
  shows "\<exists>response. graphql_query_handler fetched input = Inr response"
  using assms
  by (cases "graphql_query_try fetched (resolveTimeout (arg_gql_timeoutMs parsed))")
     (simp_all add: graphql_query_handler_def Let_def)

lemma graphql_query_handler_failure:
  assumes "graphqlQueryInputSchema_parse input = Inr parsed"
    and "graphql_query_try fetched (resolveTimeout (arg_gql_timeoutMs parsed)) = Inl error"
    and "\<not> is_AbortError error"
  shows "graphql_query_handler fetched input =
         Inr \<lparr>content = [lit ''GraphQL'' @ lit '' error: '' @ error_text error], isError = True\<rparr>"
  using assms by (simp add: graphql_query_handler_def Let_def formatErrorResponse_text)

lemma graphql_null_body:
  assumes "graphqlQueryInputSchema_parse input = Inr parsed"
    and "response_ok response" and "response_text response = Fulfilled body" and "body \<noteq> []"
    and "body_json response = Some Null"
  shows "\<exists>text. graphql_query_handler (Fulfilled response) input
           = Inr \<lparr>content = [text], isError = True\<rparr>"
  using assms
  by (simp add: graphql_query_handler_def graphql_query_try_def Let_def formatErrorResponse_def
      TypeError_def is_AbortError_def lit_def)


text \<open>
  C9: when the request is cancelled, the pending \<open>fetch\<close> or \<open>response.text()\<close> rejecting
  with an error named \<open>AbortError\<close>, the handler of \<open>graphql_query\<close> returns an error
  response whose text is \<open>GraphQL error: Request aborted after Nms\<close>, N being the
  resolved timeout; this is not the text the generic branch gives for that rejection.
\<close>

theorem C9_abort_message:
  assumes "graphqlQueryInputSchema_parse input = Inr parsed"
    and "fetched = Rejected error
         \<or> (\<exists>response. fetched = Fulfilled response \<and> response_text response = Rejected error)"
    and "is_AbortError error"
  shows "graphql_query_handler fetched input =
           Inr \<lparr>content = [lit ''GraphQL error: Request aborted after ''
                            @ Number_toString (resolveTimeout (arg_gql_timeoutMs parsed))
                            @ lit ''ms''],
                isError = True\<rparr>
         \<and> graphql_query_handler fetched input
             \<noteq> Inr (formatErrorResponse (lit ''GraphQL'') AbortError)"
proof -
  let ?n = "Number_toString (resolveTimeout (arg_gql_timeoutMs parsed))"
  have r: "graphql_query_handler fetched input =
           Inr \<lparr>content = [lit ''GraphQL error: Request aborted after '' @ ?n @ lit ''ms''],
                isError = True\<rparr>"
    using assms(1,3) graphql_query_try_aborted [OF assms(2)]
    by (simp add: graphql_query_handler_def Let_def formatErrorResponse_def new_Error_def
        aborted_text)
  have "lit ''GraphQL error: Request aborted after '' @ ?n @ lit ''ms''
        \<noteq> lit ''GraphQL'' @ lit '' error: '' @ lit ''This operation was aborted''"
    by (simp add: lit_def)
  with r show ?thesis
    by (simp add: formatErrorResponse_def AbortError_def)
qed

theorem C9_abort_message_witness:
  "graphqlQueryInputSchema_parse users_input =
     Inr \<lparr>arg_query = lit ''query { users { id } }'', arg_operationName = Undefined,
          arg_variables = Undefined, arg_gql_timeoutMs = Undefined\<rparr>
   \<and> is_AbortError AbortError
   \<and> graphql_query_handler (Rejected AbortError) users_input =
       Inr \<lparr>content = [lit ''GraphQL error: Request aborted after 30000ms''], isError = True\<rparr>"
  using C9_abort_message [OF users_input_parsed, of "Rejected AbortError" AbortError]
  by (simp add: users_input_parsed is_AbortError_def AbortError_def DEFAULT_TIMEOUT_MS_def
      digit_char_def lit_def)

lemma json_member_cases:
  assumes "payload \<noteq> Null" and "payload \<noteq> Undefined"
  shows "js_member payload key = Inr (json_member payload key)"
  using assms by (cases payload) (simp_all add: json_member_def)

text \<open>
  C10, as stated: with an OK response whose body parses to JSON with no \<open>errors\<close>
  array, the flag is false.  The body \<open>null\<close> is such a JSON text; reading
  \<open>payload.errors\<close> of it throws, and the handler answers with the flag set.
\<close>

theorem C10_null_body_flagged:
  "response_ok (json_response Null)
   \<and> response_text (json_response Null) = Fulfilled (lit ''null'')
   \<and> body_json (json_response Null) = Some Null
   \<and> json_member Null (lit ''errors'') = Undefined
   \<and> graphql_query_handler (Fulfilled (json_response Null)) users_input =
       Inr \<lparr>content = [null_response_text], isError = True\<rparr>"
proof -
  have t: "response_text (json_response Null) = Fulfilled (lit ''null'')"
    by (simp add: json_response_def JSON_stringify_def)
  have n: "lit ''null'' \<noteq> []"
    by (simp add: lit_def)
  have "graphql_query_try (Fulfilled (json_response Null)) timeout =
      Inl (TypeError (lit ''Cannot read properties of null (reading '' @ [0x27] @ lit ''errors''
                      @ [0x27] @ lit '')''))" for timeout
    by (simp add: graphql_query_try_def t n) (simp add: json_response_def)
  then have "graphql_query_handler (Fulfilled (json_response Null)) users_input =
       Inr \<lparr>content = [null_response_text], isError = True\<rparr>"
    by (simp add: graphql_query_handler_def users_input_parsed Let_def TypeError_def
        is_AbortError_def formatErrorResponse_def null_response_text_def)
       (simp add: lit_def)
  with t show ?thesis
    by (simp add: json_member_def) (simp add: json_response_def)
qed

text \<open>
  C10, amended: when the HTTP response is OK and its body parses to a JSON value other
  than \<open>null\<close> (or is empty, which is read as an empty object), the handler of
  \<open>graphql_query\<close> returns a response whose flag is set exactly when the value is an
  object with a non-empty array under \<open>errors\<close>, and whose text is the status line,
  which counts the errors when the flag is set, followed by the fenced, indented JSON text
  of the \<open>data\<close> and \<open>errors\<close> of the value with the timeout.
\<close>

theorem C10_graphql_errors_flag:
  assumes "graphqlQueryInputSchema_parse input = Inr parsed"
    and "fetched = Fulfilled response"
    and "response_ok response"
    and "response_text response = Fulfilled body"
    and "body \<noteq> [] \<and> body_json response = Some payload
           \<and> payload \<noteq> Null \<and> payload \<noteq> Undefined
         \<or> body = [] \<and> payload = Obj []"
  shows "\<exists>json.
           graphql_query_handler fetched input =
             Inr \<lparr>content =
                    [graphql_statusPrefix (json_member payload (lit ''errors''))
                       (resolveTimeout (arg_gql_timeoutMs parsed))
                     @ [0x0A, 0x0A, 0x60, 0x60, 0x60] @ lit ''json'' @ [0x0A]
                     @ json @ [0x0A, 0x60, 0x60, 0x60]],
                  isError = (\<exists>xs. json_member payload (lit ''errors'') = Arr xs \<and> xs \<noteq> [])\<rparr>
           \<and> JSON_stringify_2
                 (Obj [(lit ''data'', json_member payload (lit ''data'')),
                       (lit ''errors'', json_member payload (lit ''errors'')),
                       (lit ''timeoutMs'', Num (resolveTimeout (arg_gql_timeoutMs parsed)))])
               = Some json"
proof -
  let ?t = "resolveTimeout (arg_gql_timeoutMs parsed)"
  let ?d = "json_member payload (lit ''data'')" and ?e = "json_member payload (lit ''errors'')"
  have flag: "hasErrors_of ?e = (\<exists>xs. ?e = Arr xs \<and> xs \<noteq> [])"
    by (cases ?e) (simp_all add: hasErrors_of_def)
  obtain json where json: "JSON_stringify_2 (Obj [(lit ''data'', ?d), (lit ''errors'', ?e),
                        (lit ''timeoutMs'', Num ?t)]) = Some json"
    by (simp add: JSON_stringify_2_def Let_def)
  then have rj: "graphql_resultJson ?d ?e ?t = json"
    by (simp add: graphql_resultJson_def)
  have m: "js_member payload key = Inr (json_member payload key)" for key
    using assms(5) by (auto simp add: json_member_cases json_member_def)
  have "graphql_query_try fetched ?t =
      Inr \<lparr>content = [graphql_success_text ?d ?e ?t], isError = hasErrors_of ?e\<rparr>"
  proof (cases "body = []")
    case True
    with assms(2-5) show ?thesis
      by (simp add: graphql_query_try_def json_member_def)
  next
    case False
    with assms(2-5) m show ?thesis
      by (simp add: graphql_query_try_def)
  qed
  then have "graphql_query_handler fetched input =
      Inr \<lparr>content = [graphql_statusPrefix ?e ?t @ [0x0A, 0x0A, 0x60, 0x60, 0x60] @ lit ''json''
                       @ [0x0A] @ json @ [0x0A, 0x60, 0x60, 0x60]],
           isError = (\<exists>xs. ?e = Arr xs \<and> xs \<noteq> [])\<rparr>"
    using assms(1) flag rj
    by (simp add: graphql_query_handler_def Let_def graphql_success_text_def)
  with json show ?thesis by blast
qed

theorem C10_graphql_errors_flag_witness:
  "graphql_query_handler (Fulfilled (json_response errors_body)) users_input =
     Inr \<lparr>content = [errors_response_text], isError = True\<rparr>
   \<and> graphql_query_handler (Fulfilled (json_response data_body)) users_input =
     Inr \<lparr>content = [data_response_text], isError = False\<rparr>
   \<and> graphql_query_handler (Fulfilled (json_response (Num (Finite 5)))) users_input =
     Inr \<lparr>content = [scalar_response_text], isError = False\<rparr>
   \<and> graphql_query_handler (Fulfilled empty_response) users_input =
     Inr \<lparr>content = [scalar_response_text], isError = False\<rparr>"
proof -
  have 1: "graphql_query_handler (Fulfilled (json_response errors_body)) users_input =
     Inr \<lparr>content = [errors_response_text], isError = True\<rparr>"
    using C10_graphql_errors_flag [OF users_input_parsed,
        where fetched = "Fulfilled (json_response errors_body)"
        and response = "json_response errors_body"
        and body = "case JSON_stringify errors_body of Some s \<Rightarrow> s | None \<Rightarrow> []"
        and payload = errors_body]
    by (simp add: json_response_def json_member_def js_get_def JSON_stringify_2_def
        JSON_stringify_def QuoteJSONString_def quote_unit_def is_lead_def is_trail_def
        graphql_statusPrefix_def hasErrors_of_def errors_length_def DEFAULT_TIMEOUT_MS_def
        digit_char_def lit_def dq_def fence_def Let_def
        errors_body_def errors_response_text_def)
  have 2: "graphql_query_handler (Fulfilled (json_response data_body)) users_input =
     Inr \<lparr>content = [data_response_text], isError = False\<rparr>"
    using C10_graphql_errors_flag [OF users_input_parsed,
        where fetched = "Fulfilled (json_response data_body)"
        and response = "json_response data_body"
        and body = "case JSON_stringify data_body of Some s \<Rightarrow> s | None \<Rightarrow> []"
        and payload = data_body]
    by (simp add: json_response_def json_member_def js_get_def JSON_stringify_2_def
        JSON_stringify_def QuoteJSONString_def quote_unit_def is_lead_def is_trail_def
        graphql_statusPrefix_def hasErrors_of_def errors_length_def DEFAULT_TIMEOUT_MS_def
        digit_char_def lit_def dq_def fence_def Let_def
        data_body_def data_response_text_def)
  have 3: "graphql_query_handler (Fulfilled (json_response (Num (Finite 5)))) users_input =
     Inr \<lparr>content = [scalar_response_text], isError = False\<rparr>"
    using C10_graphql_errors_flag [OF users_input_parsed,
        where fetched = "Fulfilled (json_response (Num (Finite 5)))"
        and response = "json_response (Num (Finite 5))"
        and body = "case JSON_stringify (Num (Finite 5)) of Some s \<Rightarrow> s | None \<Rightarrow> []"
        and payload = "Num (Finite 5)"]
    by (simp add: json_response_def json_member_def js_get_def JSON_stringify_2_def
        JSON_stringify_def QuoteJSONString_def quote_unit_def is_lead_def is_trail_def
        graphql_statusPrefix_def hasErrors_of_def errors_length_def DEFAULT_TIMEOUT_MS_def
        digit_char_def lit_def dq_def fence_def Let_def
        scalar_response_text_def)
  have 4: "graphql_query_handler (Fulfilled empty_response) users_input =
     Inr \<lparr>content = [scalar_response_text], isError = False\<rparr>"
    using C10_graphql_errors_flag [OF users_input_parsed,
        where fetched = "Fulfilled empty_response" and response = empty_response
        and body = "[]" and payload = "Obj []"]
    by (simp add: json_response_def json_member_def js_get_def JSON_stringify_2_def
        JSON_stringify_def QuoteJSONString_def quote_unit_def is_lead_def is_trail_def
        graphql_statusPrefix_def hasErrors_of_def errors_length_def DEFAULT_TIMEOUT_MS_def
        digit_char_def lit_def dq_def fence_def Let_def
        empty_response_def scalar_response_text_def)
  from 1 2 3 4 show ?thesis by blast
qed

section \<open>Properties of the start-up check\<close>

lemma js_includes_prefix: "js_includes (sub @ b) sub"
proof (cases "sub @ b")
  case Nil
  then show ?thesis by simp
next
  case (Cons c s)
  have "take (length sub) (sub @ b) = sub" by simp
  then have "take (length sub) (c # s) = sub" by (simp only: Cons)
  then have "js_includes (c # s) sub" by simp
  then show ?thesis by (simp only: Cons)
qed

lemma js_includes_append: "js_includes (a @ sub @ b) sub"
  by (induction a) (simp_all add: js_includes_prefix)

lemma too_permissive_mentions:
  "mentions_write_permissions (too_permissive_error datasetId)"
proof -
  have "lit ''BigQuery service account has write permissions on dataset ''
      = lit ''BigQuery service account has '' @ lit ''write permissions'' @ lit '' on dataset ''"
    by (simp add: lit_def)
  then have "\<exists>a b. error_text (too_permissive_error datasetId)
      = a @ lit ''write permissions'' @ b"
    by (simp add: too_permissive_error_def new_Error_def error_text_def) blast
  then show ?thesis
    by (auto simp add: mentions_write_permissions_def too_permissive_error_def new_Error_def
        error_text_def js_includes_append)
qed

lemma verifyReadOnly_too_permissive:
  assumes "getDatasets_outcome client = Inr (datasetId # others)"
    and "dryRun_outcome client = None"
  shows "verifyReadOnly client = ([], Some (too_permissive_error datasetId))"
  using assms too_permissive_mentions [of datasetId]
  by (simp add: verifyReadOnly_def verifyReadOnly_inner_def Let_def)

lemma verifyReadOnly_no_datasets:
  assumes "getDatasets_outcome client = Inr []"
  shows "verifyReadOnly client =
         ([lit ''BigQuery: no datasets found, skipping write permission check''], None)"
  using assms by (simp add: verifyReadOnly_def verifyReadOnly_inner_def)

lemma verifyReadOnly_listing_fails:
  assumes "getDatasets_outcome client = Inl error"
  shows "verifyReadOnly client =
         (if mentions_write_permissions error then ([], Some error)
          else ([lit ''BigQuery: could not verify permissions ('' @ error_text error
                 @ lit ''), proceeding''], None))"
  using assms by (simp add: verifyReadOnly_def verifyReadOnly_inner_def)

lemma start_bigquery:
  assumes "bigquery config = Some credentials"
  shows "start config client =
         (case snd (verifyReadOnly client) of
            Some error \<Rightarrow> Exited 1
          | None \<Rightarrow> Serving ((if postgres config \<noteq> None then [lit ''postgres''] else [])
                             @ (if clickhouse config \<noteq> None then [lit ''clickhouse''] else [])
                             @ (if graphql config \<noteq> None then [lit ''graphql''] else [])
                             @ [lit ''bigquery'']))"
  using assms by (simp add: start_def registerTools_def Let_def split: option.split)

text \<open>
  C2, as stated: when the permissions cannot be inspected, start-up proceeds.  It fails
  when \<open>getDatasets\<close> throws an error whose message contains \<open>write permissions\<close>: the
  outer \<open>catch\<close> rethrows it and the process exits with status 1.
\<close>

theorem C2_listing_error_aborts:
  "getDatasets_outcome listing_refused
     = Inl (new_Error (lit ''Access Denied: caller lacks write permissions''))
   \<and> snd (verifyReadOnly listing_refused)
     = Some (new_Error (lit ''Access Denied: caller lacks write permissions''))
   \<and> start bigquery_only listing_refused = Exited 1"
proof -
  have "lit ''Access Denied: caller lacks write permissions''
      = lit ''Access Denied: caller lacks '' @ lit ''write permissions'' @ []"
    by (simp add: lit_def)
  then have "mentions_write_permissions
      (new_Error (lit ''Access Denied: caller lacks write permissions''))"
    by (simp only: mentions_write_permissions_def new_Error_def js_error.case js_includes_append)
  then have "verifyReadOnly listing_refused
      = ([], Some (new_Error (lit ''Access Denied: caller lacks write permissions'')))"
    by (simp add: verifyReadOnly_listing_fails listing_refused_def)
  then show ?thesis
    by (simp add: start_bigquery bigquery_only_def) (simp add: listing_refused_def)
qed

text \<open>
  C2, amended: with the warehouse configured, if the dry run of \<open>CREATE TABLE\<close> against
  the first dataset listed validates, start-up throws the too-permissive error and the
  process exits with status 1 without the server being connected; if no dataset is listed,
  or the listing fails with an error whose message does not contain \<open>write permissions\<close>,
  the check is skipped with a log line and start-up proceeds.
\<close>

theorem C2_startup_check:
  assumes "bigquery config = Some credentials"
  shows "(getDatasets_outcome client = Inr (datasetId # others) \<and> dryRun_outcome client = None
            \<longrightarrow> verifyReadOnly client = ([], Some (too_permissive_error datasetId))
                \<and> start config client = Exited 1)
         \<and> (getDatasets_outcome client = Inr []
            \<longrightarrow> verifyReadOnly client =
                  ([lit ''BigQuery: no datasets found, skipping write permission check''], None)
                \<and> (\<exists>registered. start config client = Serving registered))
         \<and> (getDatasets_outcome client = Inl error \<and> \<not> mentions_write_permissions error
            \<longrightarrow> verifyReadOnly client =
                  ([lit ''BigQuery: could not verify permissions ('' @ error_text error
                    @ lit ''), proceeding''], None)
                \<and> (\<exists>registered. start config client = Serving registered))"
  using assms
  by (auto simp add: start_bigquery verifyReadOnly_too_permissive verifyReadOnly_no_datasets
      verifyReadOnly_listing_fails)

theorem C2_startup_check_witness:
  "bigquery bigquery_only = Some (lit ''/path/to/service-account.json'')
   \<and> getDatasets_outcome writable_account = Inr [lit ''analytics'']
   \<and> dryRun_outcome writable_account = None
   \<and> start bigquery_only writable_account = Exited 1
   \<and> getDatasets_outcome empty_account = Inr []
   \<and> start bigquery_only empty_account = Serving [lit ''bigquery'']
   \<and> \<not> mentions_write_permissions (new_Error (lit ''getaddrinfo ENOTFOUND bigquery.googleapis.com''))
   \<and> start bigquery_only offline_account = Serving [lit ''bigquery'']"
proof -
  have m: "\<not> mentions_write_permissions
             (new_Error (lit ''getaddrinfo ENOTFOUND bigquery.googleapis.com''))"
    by (simp add: mentions_write_permissions_def new_Error_def lit_def)
  have b: "bigquery bigquery_only = Some (lit ''/path/to/service-account.json'')"
    by (simp add: bigquery_only_def)
  have "start bigquery_only writable_account = Exited 1"
    using C2_startup_check [OF b, of writable_account "lit ''analytics''" "[]"]
    by (simp add: writable_account_def)
  moreover have "start bigquery_only empty_account = Serving [lit ''bigquery'']"
    using C2_startup_check [OF b, of empty_account]
    by (auto simp add: empty_account_def start_bigquery bigquery_only_def)
  moreover have "start bigquery_only offline_account = Serving [lit ''bigquery'']"
    using C2_startup_check [OF b, of offline_account _ _
        "new_Error (lit ''getaddrinfo ENOTFOUND bigquery.googleapis.com'')"] m
    by (auto simp add: offline_account_def start_bigquery bigquery_only_def)
  ultimately show ?thesis
    using m b by (simp add: writable_account_def empty_account_def)
qed

end
